theory Spec2Isabelle
  imports Complex_Main
begin

section \<open>JavaScript numbers\<close>

text \<open>
  The detectors compute with JavaScript numbers. A number is modelled as a real, or one
  of the three special values that the code can produce and compare: the constructors
  initialise running minima and maxima with \<open>Infinity\<close> and \<open>-Infinity\<close>, and a
  quotient \<open>0 / 0\<close> is \<open>NaN\<close>. Rounding of doubles and the sign of zero are not
  modelled: a finite number is the real it denotes, and a zero divisor counts as \<open>+0\<close>.
\<close>

datatype jsnum = Num real | PosInf | NegInf | NaN

fun jlt :: "jsnum \<Rightarrow> jsnum \<Rightarrow> bool" where
  "jlt (Num a) (Num b) = (a < b)"
| "jlt (Num a) PosInf = True"
| "jlt NegInf (Num b) = True"
| "jlt NegInf PosInf = True"
| "jlt _ _ = False"

fun jle :: "jsnum \<Rightarrow> jsnum \<Rightarrow> bool" where
  "jle (Num a) (Num b) = (a \<le> b)"
| "jle NaN _ = False"
| "jle _ NaN = False"
| "jle NegInf _ = True"
| "jle _ PosInf = True"
| "jle _ _ = False"

definition jgt :: "jsnum \<Rightarrow> jsnum \<Rightarrow> bool" where
  "jgt a b = jlt b a"

definition jge :: "jsnum \<Rightarrow> jsnum \<Rightarrow> bool" where
  "jge a b = jle b a"

fun jneg :: "jsnum \<Rightarrow> jsnum" where
  "jneg (Num a) = Num (- a)"
| "jneg PosInf = NegInf"
| "jneg NegInf = PosInf"
| "jneg NaN = NaN"

fun jadd :: "jsnum \<Rightarrow> jsnum \<Rightarrow> jsnum" where
  "jadd (Num a) (Num b) = Num (a + b)"
| "jadd NaN _ = NaN"
| "jadd _ NaN = NaN"
| "jadd PosInf NegInf = NaN"
| "jadd NegInf PosInf = NaN"
| "jadd PosInf _ = PosInf"
| "jadd _ PosInf = PosInf"
| "jadd NegInf _ = NegInf"
| "jadd _ NegInf = NegInf"

definition jsub :: "jsnum \<Rightarrow> jsnum \<Rightarrow> jsnum" where
  "jsub a b = jadd a (jneg b)"

fun jmul :: "jsnum \<Rightarrow> jsnum \<Rightarrow> jsnum" where
  "jmul (Num a) (Num b) = Num (a * b)"
| "jmul NaN _ = NaN"
| "jmul _ NaN = NaN"
| "jmul PosInf (Num b) = (if 0 < b then PosInf else if b < 0 then NegInf else NaN)"
| "jmul (Num a) PosInf = (if 0 < a then PosInf else if a < 0 then NegInf else NaN)"
| "jmul NegInf (Num b) = (if 0 < b then NegInf else if b < 0 then PosInf else NaN)"
| "jmul (Num a) NegInf = (if 0 < a then NegInf else if a < 0 then PosInf else NaN)"
| "jmul PosInf PosInf = PosInf"
| "jmul NegInf NegInf = PosInf"
| "jmul PosInf NegInf = NegInf"
| "jmul NegInf PosInf = NegInf"

fun jdiv :: "jsnum \<Rightarrow> jsnum \<Rightarrow> jsnum" where
  "jdiv (Num a) (Num b) =
     (if b \<noteq> 0 then Num (a / b)
      else if 0 < a then PosInf else if a < 0 then NegInf else NaN)"
| "jdiv NaN _ = NaN"
| "jdiv _ NaN = NaN"
| "jdiv (Num a) _ = Num 0"
| "jdiv PosInf (Num b) = (if 0 \<le> b then PosInf else NegInf)"
| "jdiv NegInf (Num b) = (if 0 \<le> b then NegInf else PosInf)"
| "jdiv _ _ = NaN"

fun jabs :: "jsnum \<Rightarrow> jsnum" where
  "jabs (Num a) = Num \<bar>a\<bar>"
| "jabs NaN = NaN"
| "jabs _ = PosInf"

text \<open>\<open>Math.min\<close> and \<open>Math.max\<close> of two arguments: \<open>NaN\<close> when either is.\<close>

fun jmin :: "jsnum \<Rightarrow> jsnum \<Rightarrow> jsnum" where
  "jmin NaN _ = NaN"
| "jmin _ NaN = NaN"
| "jmin a b = (if jle a b then a else b)"

fun jmax :: "jsnum \<Rightarrow> jsnum \<Rightarrow> jsnum" where
  "jmax NaN _ = NaN"
| "jmax _ NaN = NaN"
| "jmax a b = (if jle a b then b else a)"



section \<open>BotDetector: weights, thresholds and the weighted score aggregator\<close>

text \<open>
  \<open>scoreWeights\<close> is the object literal of the constructor; \<open>Object.entries\<close>
  walks it in the order in which the keys were written, so it is an association list.
  \<open>detectionScores\<close> is a partial map from factor name to score: a key that is absent
  reads as \<open>undefined\<close>.
\<close>

definition scoreWeights :: "(string \<times> real) list" where
  "scoreWeights =
     [(''mousePatterns'', 0.25),
      (''headlessBrowser'', 0.15),
      (''fakeUserAgent'', 0.15),
      (''unusualResolution'', 0.10),
      (''rdpDetection'', 0.10),
      (''fingerprinting'', 0.15),
      (''apiFingerprint'', 0.10),
      (''eventTimingPatterns'', 0.15)]"

type_synonym scores = "string \<rightharpoonup> jsnum"

text \<open>Reading a property of the weight object: a missing key is \<open>undefined\<close>, and
  arithmetic on \<open>undefined\<close> gives \<open>NaN\<close>.\<close>

definition weight_prop :: "(string \<times> real) list \<Rightarrow> string \<Rightarrow> jsnum" where
  "weight_prop W k = (case map_of W k of None \<Rightarrow> NaN | Some w \<Rightarrow> Num w)"

text \<open>One iteration of the \<open>for (const [key, weight] of Object.entries(...))\<close> loop,
  on the pair \<open>(weightedScore, totalWeight)\<close>.\<close>

definition weight_step :: "scores \<Rightarrow> string \<times> real \<Rightarrow> jsnum \<times> jsnum \<Rightarrow> jsnum \<times> jsnum" where
  "weight_step ds kw acc =
     (case ds (fst kw) of
        None \<Rightarrow> acc
      | Some v \<Rightarrow> (jadd (fst acc) (jmul v (Num (snd kw))), jadd (snd acc) (Num (snd kw))))"

definition weighted_sums :: "(string \<times> real) list \<Rightarrow> scores \<Rightarrow> jsnum \<times> jsnum" where
  "weighted_sums W ds =
     (let acc = fold (weight_step ds) W (Num 0, Num 0)
      in case ds ''eventTimingPatterns'' of
           None \<Rightarrow> acc
         | Some v \<Rightarrow>
             (jadd (fst acc) (jmul v (weight_prop W ''eventTimingPatterns'')),
              jadd (snd acc) (weight_prop W ''eventTimingPatterns'')))"

definition normalizedScore :: "(string \<times> real) list \<Rightarrow> scores \<Rightarrow> jsnum" where
  "normalizedScore W ds =
     (let (weightedScore, totalWeight) = weighted_sums W ds
      in if jgt totalWeight (Num 0) then jdiv weightedScore totalWeight else Num 0)"

text \<open>\<open>_calculateOverallScore\<close> stores the normalised score under \<open>overallScore\<close>
  and returns it. No operation of its body can throw, so the \<open>catch\<close> branch is
  never taken.\<close>

definition calculateOverallScore :: "scores \<Rightarrow> scores \<times> jsnum" where
  "calculateOverallScore ds =
     (let n = normalizedScore scoreWeights ds in (ds(''overallScore'' \<mapsto> n), n))"

text \<open>The aggregate as the specification words it: the weighted mean over the factors
  of the weight table that are present in the input.\<close>

definition present_pairs :: "(string \<times> real) list \<Rightarrow> (string \<rightharpoonup> real) \<Rightarrow> (real \<times> real) list" where
  "present_pairs W fs =
     concat (map (\<lambda>(k, w). case fs k of None \<Rightarrow> [] | Some s \<Rightarrow> [(s, w)]) W)"

definition spec_overallScore :: "(string \<times> real) list \<Rightarrow> (string \<rightharpoonup> real) \<Rightarrow> real" where
  "spec_overallScore W fs =
     (\<Sum>(s, w)\<leftarrow>present_pairs W fs. s * w) / (\<Sum>(s, w)\<leftarrow>present_pairs W fs. w)"

definition num_scores :: "(string \<rightharpoonup> real) \<Rightarrow> scores" where
  "num_scores fs = (\<lambda>k. map_option Num (fs k))"

text \<open>Numerator and denominator of the weighted mean over a weight table, and the
  table the loop and the extra block of \<open>_calculateOverallScore\<close> walk together.\<close>

definition numer :: "(string \<times> real) list \<Rightarrow> (string \<rightharpoonup> real) \<Rightarrow> real" where
  "numer W fs = (\<Sum>(s, w)\<leftarrow>present_pairs W fs. s * w)"

definition denom :: "(string \<times> real) list \<Rightarrow> (string \<rightharpoonup> real) \<Rightarrow> real" where
  "denom W fs = (\<Sum>(s, w)\<leftarrow>present_pairs W fs. w)"

definition effectiveWeights :: "(string \<times> real) list" where
  "effectiveWeights = scoreWeights @ [(''eventTimingPatterns'', 0.15)]"

section \<open>BotDetector: thresholds and the status label\<close>

definition minimumSamples :: nat where
  "minimumSamples = 20"

definition angleVariance :: real where
  "angleVariance = 8"

definition velocityVariance :: real where
  "velocityVariance = 0.05"

definition perfectPatternThreshold :: real where
  "perfectPatternThreshold = 0.97"

definition humanScoreThreshold :: real where
  "humanScoreThreshold = 0.3"

definition suspiciousScoreThreshold :: real where
  "suspiciousScoreThreshold = 0.5"

definition botScoreThreshold :: real where
  "botScoreThreshold = 0.7"

text \<open>\<open>_getBotStatusLabel(score)\<close>; it also reads \<open>mouseData.movements\<close>, here the
  first argument.\<close>

definition getBotStatusLabel :: "nat \<Rightarrow> jsnum \<Rightarrow> string" where
  "getBotStatusLabel mv score =
     (if mv < minimumSamples then ''Insufficient data''
      else if jge score (Num botScoreThreshold) then ''Highly likely to be a bot''
      else if jge score (Num suspiciousScoreThreshold) then ''Suspicious patterns detected''
      else if jge score (Num humanScoreThreshold) then ''Some unusual patterns''
      else ''Likely human'')"

section \<open>BotDetector: mouse data, pattern flags and the evaluation cycle\<close>

type_synonym position = "int \<times> int"

text \<open>The fields of \<open>BotDetector.mouseData\<close> that the evaluation cycle reads. Pointer
  coordinates and \<open>Date.now()\<close> timestamps are integers; a velocity is a distance
  divided by a positive time and an angle is \<open>atan2\<close> in degrees, both finite.\<close>

record bd_mouseData =
  bd_movements :: nat
  bd_positions :: "position list"
  bd_timestamps :: "int list"
  bd_velocities :: "real list"
  bd_angles :: "real list"
  bd_sumX :: int
  bd_sumY :: int
  bd_minVelocity :: jsnum
  bd_maxVelocity :: jsnum
  bd_sumVelocity :: real
  bd_minAngle :: jsnum
  bd_maxAngle :: jsnum
  bd_sumAngle :: real
  bd_timeBetweenMovements :: "int list"
  bd_minTimeBetween :: jsnum
  bd_maxTimeBetween :: jsnum
  bd_sumTimeBetween :: int

record suspiciousPatterns =
  perfectStraightLines :: nat
  consistentVelocity :: bool
  consistentAngles :: bool
  consistentTimeBetween :: bool
  unnaturalMovement :: bool
  apiAnomalies :: bool
  eventTimingAnomalies :: nat

record botDetector =
  mouseData :: bd_mouseData
  patterns :: suspiciousPatterns
  detectionScores :: scores

datatype js_error = TypeError

definition distance :: "position \<Rightarrow> position \<Rightarrow> real" where
  "distance p q =
     (let dx = fst q - fst p; dy = snd q - snd p in sqrt (real_of_int (dx * dx + dy * dy)))"

text \<open>The condition that either loop of the detector puts on a step: it moved more than ten
  pixels (\<open>MIN_MOVEMENT_DISTANCE\<close>, \<open>MIN_SIGNIFICANT_DISTANCE\<close>) and its angle differs
  from the previous one by less than \<open>angleVariance\<close>, or by more than 180 minus it.\<close>

definition MIN_MOVEMENT_DISTANCE :: real where
  "MIN_MOVEMENT_DISTANCE = 10"

definition straight_step :: "real \<Rightarrow> real \<Rightarrow> bool" where
  "straight_step d diff =
     (MIN_MOVEMENT_DISTANCE < d \<and> (diff < angleVariance \<or> 180 - angleVariance < diff))"

text \<open>The counting loop of \<open>_analyzeForBotPatterns\<close>, for \<open>i\<close> from 1 below
  \<open>angles.length\<close>: the arguments are the previous angle and position, the angles and
  positions from index \<open>i\<close> on, and the count. \<open>positions[i]\<close> beyond the array is
  \<open>undefined\<close>, and reading its \<open>x\<close> throws.\<close>

fun countStraight :: "real \<Rightarrow> position \<Rightarrow> real list \<Rightarrow> position list \<Rightarrow> nat \<Rightarrow> js_error + nat" where
  "countStraight prevAngle prevPosition [] ps c = Inr c"
| "countStraight prevAngle prevPosition (a # as) [] c = Inl TypeError"
| "countStraight prevAngle prevPosition (a # as) (p # ps) c =
     countStraight a p as ps
       (if straight_step (distance prevPosition p) \<bar>a - prevAngle\<bar> then c + 1 else c)"

definition straightLineCount_of :: "bd_mouseData \<Rightarrow> js_error + nat" where
  "straightLineCount_of m =
     (case bd_angles m of
        [] \<Rightarrow> Inr 0
      | a0 # as \<Rightarrow>
          (case bd_positions m of
             [] \<Rightarrow> (if as = [] then Inr 0 else Inl TypeError)
           | p0 # ps \<Rightarrow> countStraight a0 p0 as ps 0))"

definition PERCENTAGE_THRESHOLD :: real where
  "PERCENTAGE_THRESHOLD = 45"

definition avgVelocity_of :: "bd_mouseData \<Rightarrow> real" where
  "avgVelocity_of m =
     (if 0 < length (bd_velocities m) then bd_sumVelocity m / real (length (bd_velocities m)) else 0)"

text \<open>\<open>_analyzeForBotPatterns\<close>, block by block. Each flag is written only under its
  guard and keeps its old value otherwise. The logging is left out.\<close>

definition check_velocity :: "bd_mouseData \<Rightarrow> suspiciousPatterns \<Rightarrow> suspiciousPatterns" where
  "check_velocity m sp =
     (if jgt (bd_minVelocity m) (Num 0) \<and> 0 < avgVelocity_of m
      then sp\<lparr>consistentVelocity :=
                jgt (jdiv (bd_minVelocity m) (bd_maxVelocity m)) (Num perfectPatternThreshold)\<rparr>
      else sp)"

definition check_angles :: "bd_mouseData \<Rightarrow> suspiciousPatterns \<Rightarrow> js_error + suspiciousPatterns" where
  "check_angles m sp =
     (if 0 < length (bd_angles m) then
        (case straightLineCount_of m of
           Inl e \<Rightarrow> Inl e
         | Inr straightLineCount \<Rightarrow>
             (let straightLinePercentage =
                    real straightLineCount / real (length (bd_angles m)) * 100
              in if PERCENTAGE_THRESHOLD < straightLinePercentage \<and> 50 \<le> length (bd_angles m)
                 then Inr (sp\<lparr>consistentAngles := True, perfectStraightLines := straightLineCount\<rparr>)
                 else if consistentAngles sp
                 then Inr (sp\<lparr>consistentAngles := False, perfectStraightLines := 0\<rparr>)
                 else Inr sp))
      else Inr sp)"

definition check_timing :: "bd_mouseData \<Rightarrow> suspiciousPatterns \<Rightarrow> suspiciousPatterns" where
  "check_timing m sp =
     (if 0 < length (bd_timeBetweenMovements m)
      then sp\<lparr>consistentTimeBetween :=
                jgt (jdiv (bd_minTimeBetween m) (bd_maxTimeBetween m)) (Num perfectPatternThreshold)\<rparr>
      else sp)"

definition check_unnatural :: "bd_mouseData \<Rightarrow> suspiciousPatterns \<Rightarrow> suspiciousPatterns" where
  "check_unnatural m sp =
     (if 0 < avgVelocity_of m \<and> jgt (bd_minVelocity m) (Num 0)
      then sp\<lparr>unnaturalMovement :=
                jlt (jdiv (jabs (jsub (bd_maxVelocity m) (bd_minVelocity m))) (Num (avgVelocity_of m)))
                    (Num velocityVariance)\<rparr>
      else sp)"

definition analyzeForBotPatterns :: "bd_mouseData \<Rightarrow> suspiciousPatterns \<Rightarrow> js_error + suspiciousPatterns" where
  "analyzeForBotPatterns m sp =
     (case check_angles m (check_velocity m sp) of
        Inl e \<Rightarrow> Inl e
      | Inr sp' \<Rightarrow> Inr (check_unnatural m (check_timing m sp')))"

text \<open>\<open>_calculateBotLikelihood\<close>: up to four factor scores are added and averaged. The
  variance quotient \<open>(max - min) / (max + min) * 2\<close> is computed in JavaScript
  numbers, so that \<open>0 / 0\<close> is \<open>NaN\<close> and not a real.\<close>

definition spreadScore :: "jsnum \<Rightarrow> jsnum \<Rightarrow> jsnum" where
  "spreadScore mx mn =
     (let variance = jmul (jdiv (jsub mx mn) (jadd mx mn)) (Num 2)
      in jsub (Num 1) (jmin variance (Num 1)))"

definition velocityScore :: "bd_mouseData \<Rightarrow> suspiciousPatterns \<Rightarrow> jsnum" where
  "velocityScore m sp =
     (if consistentVelocity sp then Num 1 else spreadScore (bd_maxVelocity m) (bd_minVelocity m))"

definition angleScore :: "bd_mouseData \<Rightarrow> suspiciousPatterns \<Rightarrow> real" where
  "angleScore m sp =
     (if consistentAngles sp then
        (let straightLinePercentage =
               real (perfectStraightLines sp) / real (length (bd_angles m)) * 100
         in if 60 < straightLinePercentage \<and> 50 \<le> length (bd_angles m) then 0.8
            else if 45 < straightLinePercentage \<and> 50 \<le> length (bd_angles m) then 0.5
            else 0.3)
      else 0)"

definition timingScore :: "bd_mouseData \<Rightarrow> suspiciousPatterns \<Rightarrow> jsnum" where
  "timingScore m sp =
     (if consistentTimeBetween sp then Num 1
      else spreadScore (bd_maxTimeBetween m) (bd_minTimeBetween m))"

text \<open>The loop over consecutive straight steps, for \<open>i\<close> from 1 below
  \<open>angles.length\<close>. The accumulators are \<open>consecutiveCount\<close>, \<open>maxConsecutive\<close>,
  the previous angle, position and timestamp, \<open>isHighSpeedSequence\<close> and
  \<open>totalDistance\<close>; the lists are the angles, positions and timestamps from index
  \<open>i\<close> on. A timestamp beyond the array is \<open>undefined\<close> and makes the time delta
  \<open>NaN\<close>; a position beyond the array throws.\<close>

fun consecutiveLoop ::
  "nat \<Rightarrow> nat \<Rightarrow> real \<Rightarrow> position \<Rightarrow> jsnum \<Rightarrow> bool \<Rightarrow> real \<Rightarrow>
   real list \<Rightarrow> position list \<Rightarrow> int list \<Rightarrow> js_error + (nat \<times> bool \<times> real)" where
  "consecutiveLoop cc mx pa pp pt hs td [] ps ts = Inr (mx, hs, td)"
| "consecutiveLoop cc mx pa pp pt hs td (a # as) [] ts = Inl TypeError"
| "consecutiveLoop cc mx pa pp pt hs td (a # as) (p # ps) ts =
     (let timestamp = (case ts of [] \<Rightarrow> NaN | t # _ \<Rightarrow> Num (real_of_int t));
          diff = \<bar>a - pa\<bar>;
          d = distance pp p;
          timeDelta = jsub timestamp pt;
          speed = (if jgt timeDelta (Num 0) then jdiv (Num d) timeDelta else Num 0)
      in if straight_step d diff
         then consecutiveLoop (cc + 1) (max mx (cc + 1)) a p timestamp
                (if jgt speed (Num 0.5) then True else hs) (td + d) as ps (tl ts)
         else consecutiveLoop 0 mx a p timestamp hs (td + d) as ps (tl ts))"

definition consecutiveScore :: "bd_mouseData \<Rightarrow> js_error + real" where
  "consecutiveScore m =
     (case bd_angles m of
        [] \<Rightarrow> Inr 0
      | a0 # as \<Rightarrow>
          (case bd_positions m of
             [] \<Rightarrow> (if as = [] then Inr 0 else Inl TypeError)
           | p0 # ps \<Rightarrow>
               (case consecutiveLoop 0 0 a0 p0
                       (case bd_timestamps m of [] \<Rightarrow> NaN | t0 # _ \<Rightarrow> Num (real_of_int t0))
                       False 0 as ps (tl (bd_timestamps m)) of
                  Inl e \<Rightarrow> Inl e
                | Inr (maxConsecutive, isHighSpeedSequence, totalDistance) \<Rightarrow>
                    Inr (if 20 \<le> maxConsecutive \<and> isHighSpeedSequence \<and> 500 < totalDistance then 0.9
                         else if 15 \<le> maxConsecutive \<and> isHighSpeedSequence then 0.7
                         else if 25 \<le> maxConsecutive then 0.5
                         else 0))))"

definition calculateBotLikelihood :: "bd_mouseData \<Rightarrow> suspiciousPatterns \<Rightarrow> js_error + jsnum" where
  "calculateBotLikelihood m sp =
     (let (score1, n1) =
            (if 0 < length (bd_velocities m) then (jadd (Num 0) (velocityScore m sp), 1)
             else (Num 0, 0::nat));
          (score2, n2) =
            (if 0 < length (bd_angles m) then (jadd score1 (Num (angleScore m sp)), n1 + 1)
             else (score1, n1));
          (score3, n3) =
            (if 0 < length (bd_timeBetweenMovements m) then (jadd score2 (timingScore m sp), n2 + 1)
             else (score2, n2))
      in if minimumSamples < length (bd_angles m) then
           (case consecutiveScore m of
              Inl e \<Rightarrow> Inl e
            | Inr c \<Rightarrow> Inr (jdiv (jadd score3 (Num c)) (Num (real (n3 + 1)))))
         else Inr (if 0 < n3 then jdiv score3 (Num (real n3)) else Num 0))"

text \<open>\<open>_analyzeAndUpdateResults\<close>, the cycle the two-second timer runs. Below the
  minimum sample count it only reports that it is collecting. Otherwise it recomputes
  the flags, the mouse pattern score, the overall score and the status label; the
  second component of the result is the status it shows. An exception leaves the cycle
  at once, and is the result \<open>Inl\<close>. The averages it formats for display, and the
  display itself, are left out.\<close>

definition analyzeAndUpdateResults :: "botDetector \<Rightarrow> js_error + (botDetector \<times> string)" where
  "analyzeAndUpdateResults b =
     (if bd_movements (mouseData b) < minimumSamples then Inr (b, ''Collecting data...'')
      else
        (case analyzeForBotPatterns (mouseData b) (patterns b) of
           Inl e \<Rightarrow> Inl e
         | Inr sp \<Rightarrow>
             (case calculateBotLikelihood (mouseData b) sp of
                Inl e \<Rightarrow> Inl e
              | Inr mousePatternScore \<Rightarrow>
                  (let (ds, overall) =
                         calculateOverallScore ((detectionScores b)(''mousePatterns'' \<mapsto> mousePatternScore))
                   in Inr (b\<lparr>patterns := sp, detectionScores := ds\<rparr>,
                           getBotStatusLabel (bd_movements (mouseData b)) overall)))))"

section \<open>RemoteDesktopDetector: the mouse movement analysis\<close>

text \<open>A tracked point is \<open>{x, y, time}\<close> with \<open>time\<close> read from
  \<open>performance.now()\<close>, a number of milliseconds that need not be whole.\<close>

record mousePoint =
  pt_x :: int
  pt_y :: int
  pt_time :: real

record remoteDesktop =
  mousePoints :: "mousePoint list"
  straightLineCount :: nat
  naturalMovementCount :: nat
  lastAnalysisTime :: real
  rd_straightLineRatio :: real
  rd_consistentVelocity :: bool

definition triangleArea :: "position \<Rightarrow> position \<Rightarrow> position \<Rightarrow> real" where
  "triangleArea p1 p2 p3 =
     \<bar>real_of_int (fst p1 * (snd p2 - snd p3) + fst p2 * (snd p3 - snd p1) + fst p3 * (snd p1 - snd p2)) / 2\<bar>"

definition areaTolerance :: real where
  "areaTolerance = 2.0"

definition velocityToleranceFactor :: real where
  "velocityToleranceFactor = 0.3"

definition pt_pos :: "mousePoint \<Rightarrow> position" where
  "pt_pos p = (pt_x p, pt_y p)"

text \<open>The loop of \<open>_analyzeMouseMovement\<close> over the triples \<open>i-2, i-1, i\<close>. The
  accumulators are the local \<open>consistentVelocity\<close> and \<open>previousVelocity\<close>
  (\<open>None\<close> for \<open>null\<close>) and the two counters of the detector object.\<close>

fun analyzeLoop ::
  "mousePoint list \<Rightarrow> bool \<Rightarrow> jsnum option \<Rightarrow> nat \<Rightarrow> nat \<Rightarrow> bool \<times> nat \<times> nat" where
  "analyzeLoop (p1 # p2 # p3 # rest) cv previousVelocity sl nm =
     (let isStraightLine = (triangleArea (pt_pos p1) (pt_pos p2) (pt_pos p3) < areaTolerance);
          velocity1 = jdiv (Num (distance (pt_pos p1) (pt_pos p2))) (Num (pt_time p2 - pt_time p1));
          cv' = (case previousVelocity of
                   None \<Rightarrow> cv
                 | Some pv \<Rightarrow>
                     (if jgt (jdiv (jabs (jsub velocity1 pv)) (jmax velocity1 pv))
                             (Num velocityToleranceFactor)
                      then False else cv))
      in if isStraightLine
         then analyzeLoop (p2 # p3 # rest) cv' (Some velocity1) (sl + 1) nm
         else analyzeLoop (p2 # p3 # rest) cv' (Some velocity1) sl (nm + 1))"
| "analyzeLoop ps cv previousVelocity sl nm = (cv, sl, nm)"

definition analyzeMouseMovement :: "remoteDesktop \<Rightarrow> remoteDesktop" where
  "analyzeMouseMovement r =
     (let (cv, sl, nm) = analyzeLoop (mousePoints r) True None (straightLineCount r) (naturalMovementCount r);
          r1 = r\<lparr>straightLineCount := sl, naturalMovementCount := nm\<rparr>;
          totalMovements = sl + nm
      in if 0 < totalMovements then
           (if totalMovements < 30
            then r1\<lparr>rd_straightLineRatio := 0, rd_consistentVelocity := False\<rparr>
            else r1\<lparr>rd_straightLineRatio := real sl / real totalMovements,
                     rd_consistentVelocity := cv\<rparr>)
         else r1)"

text \<open>The state the constructors build.\<close>

definition initialBotMouseData :: bd_mouseData where
  "initialBotMouseData =
     \<lparr>bd_movements = 0, bd_positions = [], bd_timestamps = [], bd_velocities = [], bd_angles = [],
      bd_sumX = 0, bd_sumY = 0, bd_minVelocity = PosInf, bd_maxVelocity = NegInf, bd_sumVelocity = 0,
      bd_minAngle = PosInf, bd_maxAngle = NegInf, bd_sumAngle = 0, bd_timeBetweenMovements = [],
      bd_minTimeBetween = PosInf, bd_maxTimeBetween = NegInf, bd_sumTimeBetween = 0\<rparr>"

definition initialPatterns :: suspiciousPatterns where
  "initialPatterns =
     \<lparr>perfectStraightLines = 0, consistentVelocity = False, consistentAngles = False,
      consistentTimeBetween = False, unnaturalMovement = False, apiAnomalies = False,
      eventTimingAnomalies = 0\<rparr>"

definition initialDetectionScores :: scores where
  "initialDetectionScores =
     [''mousePatterns'' \<mapsto> Num 0, ''headlessBrowser'' \<mapsto> Num 0, ''fakeUserAgent'' \<mapsto> Num 0,
      ''unusualResolution'' \<mapsto> Num 0, ''rdpDetection'' \<mapsto> Num 0, ''fingerprinting'' \<mapsto> Num 0,
      ''apiFingerprint'' \<mapsto> Num 0, ''eventTimingPatterns'' \<mapsto> Num 0, ''overallScore'' \<mapsto> Num 0]"

definition initialBotDetector :: botDetector where
  "initialBotDetector =
     \<lparr>mouseData = initialBotMouseData, patterns = initialPatterns,
      detectionScores = initialDetectionScores\<rparr>"

definition initialRemoteDesktop :: remoteDesktop where
  "initialRemoteDesktop =
     \<lparr>mousePoints = [], straightLineCount = 0, naturalMovementCount = 0, lastAnalysisTime = 0,
      rd_straightLineRatio = 0, rd_consistentVelocity = False\<rparr>"

section \<open>BotDetector: the headless browser evaluator\<close>






text \<open>What the evaluator reads of the browser. \<open>navigator.permissions\<close> is the one
  capability it tests for before use: \<open>None\<close> when it is absent, otherwise how the
  promise of \<open>query\<close> settles. \<open>Notification\<close> is read inside the promise callback
  and may be undefined there. The user agent string and the plugin array are read without a
  test; they are properties every browser object has.\<close>

datatype queryResult = Pending | Rejected | Resolved string















section \<open>MouseInteractionDetector: the tracking data and the mousemove handler\<close>

text \<open>\<open>Math.atan2\<close> on finite arguments, and the remainder \<open>%\<close>, whose result has
  the sign of the dividend.\<close>

definition js_atan2 :: "real \<Rightarrow> real \<Rightarrow> real" where
  "js_atan2 b a =
     (if 0 < a then arctan (b / a)
      else if a < 0 then (if 0 \<le> b then arctan (b / a) + pi else arctan (b / a) - pi)
      else if 0 < b then pi / 2
      else if b < 0 then - pi / 2
      else 0)"

definition js_rem :: "real \<Rightarrow> real \<Rightarrow> jsnum" where
  "js_rem a b =
     (if b = 0 then NaN
      else Num (a - b * real_of_int (if 0 \<le> a / b then \<lfloor>a / b\<rfloor> else \<lceil>a / b\<rceil>)))"

datatype suspicionReason =
    HighStraightLine real
  | ElevatedStraightLine real
  | ConsistentVelocity real
  | ElevatedVelocityConsistency real
  | ConsistentTiming
  | SomewhatConsistentTiming
  | ElevatedLatency real
  | CardinalMovements real
  | UnnaturalAcceleration

text \<open>\<open>MouseInteractionDetector.mouseData\<close>, every field of it. A suspicion reason is
  kept as the kind of message with the number the message prints.\<close>

record mouseTracking =
  movements :: nat
  clicks :: nat
  scrollEvents :: nat
  positions :: "position list"
  timestamps :: "int list"
  minX :: jsnum
  maxX :: jsnum
  minY :: jsnum
  maxY :: jsnum
  sumX :: int
  sumY :: int
  velocities :: "real list"
  minVelocity :: jsnum
  maxVelocity :: jsnum
  sumVelocity :: real
  lastMovementTime :: int
  timeBetweenMovements :: "int list"
  minTimeBetween :: jsnum
  maxTimeBetween :: jsnum
  sumTimeBetween :: int
  isMouseInViewport :: bool
  mouseEntryCount :: nat
  mouseExitCount :: nat
  timeInViewport :: int
  viewportEntryTime :: int
  straightLineSegments :: nat
  curvedLineSegments :: nat
  velocityConsistencyScores :: "real list"
  accelerationPatterns :: "real list"
  movementAngles :: "real list"
  remoteAccessScore :: real
  remoteSuspicionReasons :: "suspicionReason list"

definition initialTracking :: mouseTracking where
  "initialTracking =
     \<lparr>movements = 0, clicks = 0, scrollEvents = 0, positions = [], timestamps = [],
      minX = PosInf, maxX = NegInf, minY = PosInf, maxY = NegInf, sumX = 0, sumY = 0,
      velocities = [], minVelocity = PosInf, maxVelocity = NegInf, sumVelocity = 0,
      lastMovementTime = 0, timeBetweenMovements = [], minTimeBetween = PosInf,
      maxTimeBetween = NegInf, sumTimeBetween = 0, isMouseInViewport = False,
      mouseEntryCount = 0, mouseExitCount = 0, timeInViewport = 0, viewportEntryTime = 0,
      straightLineSegments = 0, curvedLineSegments = 0, velocityConsistencyScores = [],
      accelerationPatterns = [], movementAngles = [], remoteAccessScore = 0,
      remoteSuspicionReasons = []\<rparr>"

text \<open>A mousemove event as the handler sees it: the pointer position, the value of
  \<open>Date.now()\<close> on entry, and its value at the later call that stamps the entry into
  the viewport.\<close>

record mouseEvent =
  clientX :: int
  clientY :: int
  dateNow :: int
  dateNowEntry :: int

definition position_unchanged :: "mouseTracking \<Rightarrow> position \<Rightarrow> bool" where
  "position_unchanged s p = (0 < length (positions s) \<and> last (positions s) = p)"

definition update_position_stats :: "position \<Rightarrow> mouseTracking \<Rightarrow> mouseTracking" where
  "update_position_stats p s =
     s\<lparr>movements := movements s + 1,
       minX := jmin (minX s) (Num (real_of_int (fst p))),
       maxX := jmax (maxX s) (Num (real_of_int (fst p))),
       minY := jmin (minY s) (Num (real_of_int (snd p))),
       maxY := jmax (maxY s) (Num (real_of_int (snd p))),
       sumX := sumX s + fst p,
       sumY := sumY s + snd p\<rparr>"

definition update_time_between :: "int \<Rightarrow> mouseTracking \<Rightarrow> mouseTracking" where
  "update_time_between timestamp s =
     (let s' =
        (if 0 < lastMovementTime s then
           (let timeDiff = timestamp - lastMovementTime s
            in if 0 < timeDiff
               then s\<lparr>timeBetweenMovements := timeBetweenMovements s @ [timeDiff],
                      minTimeBetween := jmin (minTimeBetween s) (Num (real_of_int timeDiff)),
                      maxTimeBetween := jmax (maxTimeBetween s) (Num (real_of_int timeDiff)),
                      sumTimeBetween := sumTimeBetween s + timeDiff\<rparr>
               else s)
         else s)
      in s'\<lparr>lastMovementTime := timestamp\<rparr>)"

text \<open>The consistency score of the last three velocities.\<close>

definition consistencyScore :: "real list \<Rightarrow> real" where
  "consistencyScore velocityHistory =
     (let avgVelocity = sum_list velocityHistory / real (length velocityHistory);
          velocityVariance =
            sum_list (map (\<lambda>v. (v - avgVelocity)\<^sup>2) velocityHistory) / real (length velocityHistory)
      in exp (- 10 * velocityVariance))"

text \<open>The velocity block, which runs for a positive time delta. The previous
  timestamp is the last stored one; were the array empty it would be \<open>undefined\<close>,
  the delta \<open>NaN\<close> and the test false.\<close>

definition record_velocity :: "real \<Rightarrow> int \<Rightarrow> mouseTracking \<Rightarrow> mouseTracking" where
  "record_velocity d timeDelta s =
     (let velocity = d / real_of_int timeDelta;
          s1 = s\<lparr>velocities := velocities s @ [velocity],
                 minVelocity := jmin (minVelocity s) (Num velocity),
                 maxVelocity := jmax (maxVelocity s) (Num velocity),
                 sumVelocity := sumVelocity s + velocity\<rparr>;
          s2 = (if 1 < length (velocities s1)
                then s1\<lparr>accelerationPatterns := accelerationPatterns s1 @
                         [(velocity - velocities s1 ! (length (velocities s1) - 2)) / real_of_int timeDelta]\<rparr>
                else s1)
      in if 2 < length (velocities s2)
         then s2\<lparr>velocityConsistencyScores := velocityConsistencyScores s2 @
                  [consistencyScore (drop (length (velocities s2) - 3) (velocities s2))]\<rparr>
         else s2)"

definition movementAngle :: "position \<Rightarrow> position \<Rightarrow> real" where
  "movementAngle prevPosition p =
     (let dx = fst p - fst prevPosition;
          dy = snd p - snd prevPosition
      in js_atan2 (real_of_int dy) (real_of_int dx) * 180 / pi)"

definition update_velocity :: "position \<Rightarrow> int \<Rightarrow> mouseTracking \<Rightarrow> mouseTracking" where
  "update_velocity p timestamp s =
     (let prevPosition = last (positions s);
          s1 = s\<lparr>movementAngles := movementAngles s @ [movementAngle prevPosition p]\<rparr>
      in if timestamps s \<noteq> [] \<and> 0 < timestamp - last (timestamps s)
         then record_velocity (distance prevPosition p) (timestamp - last (timestamps s)) s1
         else s1)"

text \<open>The straight-line test on three points: the area of their triangle against a
  tenth of the longer of the two segments.\<close>

definition nearlyCollinear :: "position \<Rightarrow> position \<Rightarrow> position \<Rightarrow> bool" where
  "nearlyCollinear p1 p2 p3 =
     (let distanceThreshold = max (distance p1 p2) (distance p2 p3) * 0.1
      in triangleArea p1 p2 p3 < distanceThreshold)"

text \<open>The two stored points the handler compares the new position with, read before
  the new position is stored.\<close>

definition comparedPoints :: "mouseTracking \<Rightarrow> position \<times> position" where
  "comparedPoints s =
     (positions s ! (length (positions s) - 3), positions s ! (length (positions s) - 2))"

definition update_segments :: "position \<Rightarrow> mouseTracking \<Rightarrow> mouseTracking" where
  "update_segments p s =
     (if 2 < length (positions s) then
        (if nearlyCollinear (fst (comparedPoints s)) (snd (comparedPoints s)) p
         then s\<lparr>straightLineSegments := straightLineSegments s + 1\<rparr>
         else s\<lparr>curvedLineSegments := curvedLineSegments s + 1\<rparr>)
      else s)"

definition store_sample :: "position \<Rightarrow> int \<Rightarrow> mouseTracking \<Rightarrow> mouseTracking" where
  "store_sample p timestamp s =
     s\<lparr>positions := positions s @ [p], timestamps := timestamps s @ [timestamp]\<rparr>"

definition maxSamples :: nat where
  "maxSamples = 200"

text \<open>\<open>shift()\<close> removes the first element, and does nothing to an empty array.\<close>

definition shift_if_over :: "'a list \<Rightarrow> 'a list" where
  "shift_if_over xs = (if maxSamples < length xs then tl xs else xs)"

definition cap_arrays :: "mouseTracking \<Rightarrow> mouseTracking" where
  "cap_arrays s =
     (if maxSamples < length (positions s)
      then s\<lparr>positions := tl (positions s),
             timestamps := tl (timestamps s),
             velocities := shift_if_over (velocities s),
             timeBetweenMovements := shift_if_over (timeBetweenMovements s),
             velocityConsistencyScores := shift_if_over (velocityConsistencyScores s),
             accelerationPatterns := shift_if_over (accelerationPatterns s),
             movementAngles := shift_if_over (movementAngles s)\<rparr>
      else s)"

definition mark_in_viewport :: "int \<Rightarrow> mouseTracking \<Rightarrow> mouseTracking" where
  "mark_in_viewport entryTime s =
     (if \<not> isMouseInViewport s
      then s\<lparr>isMouseInViewport := True,
             mouseEntryCount := mouseEntryCount s + 1,
             viewportEntryTime := entryTime\<rparr>
      else s)"

text \<open>\<open>_analyzeRemoteAccessPatterns\<close>: five checks that add to a score and to a list
  of reasons. Each check is a function on the pair of both.\<close>

definition straightLineRatio :: "mouseTracking \<Rightarrow> real" where
  "straightLineRatio s =
     real (straightLineSegments s) / real (straightLineSegments s + curvedLineSegments s)"

definition check_straight_lines ::
  "mouseTracking \<Rightarrow> real \<times> suspicionReason list \<Rightarrow> real \<times> suspicionReason list" where
  "check_straight_lines s acc =
     (let totalSegments = straightLineSegments s + curvedLineSegments s
      in if 10 < totalSegments then
           (if 0.8 < straightLineRatio s
            then (fst acc + 25, snd acc @ [HighStraightLine (straightLineRatio s * 100)])
            else if 0.65 < straightLineRatio s
            then (fst acc + 15, snd acc @ [ElevatedStraightLine (straightLineRatio s * 100)])
            else acc)
         else acc)"

definition check_velocity_consistency ::
  "mouseTracking \<Rightarrow> real \<times> suspicionReason list \<Rightarrow> real \<times> suspicionReason list" where
  "check_velocity_consistency s acc =
     (if 10 < length (velocityConsistencyScores s) then
        (let avgConsistency =
               sum_list (velocityConsistencyScores s) / real (length (velocityConsistencyScores s))
         in if 0.9 < avgConsistency
            then (fst acc + 25, snd acc @ [ConsistentVelocity (avgConsistency * 100)])
            else if 0.8 < avgConsistency
            then (fst acc + 15, snd acc @ [ElevatedVelocityConsistency (avgConsistency * 100)])
            else acc)
      else acc)"

definition check_movement_timing ::
  "mouseTracking \<Rightarrow> real \<times> suspicionReason list \<Rightarrow> real \<times> suspicionReason list" where
  "check_movement_timing s acc =
     (if 10 < length (timeBetweenMovements s) then
        (let n = real (length (timeBetweenMovements s));
             avg = real_of_int (sumTimeBetween s) / n;
             variance = sum_list (map (\<lambda>t. (real_of_int t - avg)\<^sup>2) (timeBetweenMovements s)) / n;
             stdDev = sqrt variance;
             consistencyRatio = jdiv (Num stdDev) (Num avg);
             acc1 = (if jlt consistencyRatio (Num 0.2)
                     then (fst acc + 20, snd acc @ [ConsistentTiming])
                     else if jlt consistencyRatio (Num 0.4)
                     then (fst acc + 10, snd acc @ [SomewhatConsistentTiming])
                     else acc)
         in if 30 < avg then (fst acc1 + 10, snd acc1 @ [ElevatedLatency avg]) else acc1)
      else acc)"

definition isCardinalAngle :: "real \<Rightarrow> bool" where
  "isCardinalAngle angle =
     (let normalized =
            (case js_rem angle 360 of
               Num r \<Rightarrow> js_rem (r + 360) 360
             | other \<Rightarrow> other)
      in list_ex (\<lambda>cardinal.
            jlt (jabs (jsub normalized (Num cardinal))) (Num 5) \<or>
            jlt (jabs (jsub (jsub normalized (Num cardinal)) (Num 360))) (Num 5))
          [0, 90, 180, 270])"

definition check_cardinal_angles ::
  "mouseTracking \<Rightarrow> real \<times> suspicionReason list \<Rightarrow> real \<times> suspicionReason list" where
  "check_cardinal_angles s acc =
     (if 10 < length (movementAngles s) then
        (let cardinalCount = length (filter isCardinalAngle (movementAngles s));
             cardinalRatio = real cardinalCount / real (length (movementAngles s))
         in if 0.4 < cardinalRatio
            then (fst acc + 15, snd acc @ [CardinalMovements (cardinalRatio * 100)])
            else acc)
      else acc)"

definition check_acceleration ::
  "mouseTracking \<Rightarrow> real \<times> suspicionReason list \<Rightarrow> real \<times> suspicionReason list" where
  "check_acceleration s acc =
     (if 10 < length (accelerationPatterns s) then
        (let abruptChanges = length (filter (\<lambda>a. 0.05 < \<bar>a\<bar>) (accelerationPatterns s));
             abruptRatio = real abruptChanges / real (length (accelerationPatterns s))
         in if 0.6 < abruptRatio
            then (fst acc + 15, snd acc @ [UnnaturalAcceleration])
            else acc)
      else acc)"

definition analyzeRemoteAccessPatterns :: "mouseTracking \<Rightarrow> mouseTracking" where
  "analyzeRemoteAccessPatterns s =
     (if movements s < 20 then s
      else
        (let acc = check_acceleration s (check_cardinal_angles s (check_movement_timing s
                     (check_velocity_consistency s (check_straight_lines s (0, [])))))
         in s\<lparr>remoteAccessScore := min 100 (fst acc), remoteSuspicionReasons := snd acc\<rparr>))"

text \<open>The part of the mousemove listener between its first test and the storing of
  the new sample: the counters and position statistics, the time between movements, and,
  when a position is already stored, the angle, the velocity and the segment counters.\<close>

definition track_movement :: "position \<Rightarrow> int \<Rightarrow> mouseTracking \<Rightarrow> mouseTracking" where
  "track_movement p timestamp s =
     (let s1 = update_time_between timestamp (update_position_stats p s)
      in if 0 < length (positions s1)
         then update_segments p (update_velocity p timestamp s1)
         else s1)"

text \<open>The mousemove listener. An event at the last stored position returns at once.\<close>

definition mousemove :: "mouseTracking \<Rightarrow> mouseEvent \<Rightarrow> mouseTracking" where
  "mousemove s e =
     (let timestamp = dateNow e;
          position = (clientX e, clientY e)
      in if position_unchanged s position then s
         else
           (let s3 = mark_in_viewport (dateNowEntry e)
                       (cap_arrays (store_sample position timestamp
                          (track_movement position timestamp s)))
            in if movements s3 mod 10 = 0 \<and> 20 < movements s3
               then analyzeRemoteAccessPatterns s3
               else s3))"

text \<open>The other listeners of \<open>_setupMouseTracking\<close>. The mouseout listener acts when
  the pointer really left the viewport, which is its first argument, and reads the
  clock, its second.\<close>

definition click :: "mouseTracking \<Rightarrow> mouseTracking" where
  "click s = s\<lparr>clicks := clicks s + 1\<rparr>"

definition wheel :: "mouseTracking \<Rightarrow> mouseTracking" where
  "wheel s = s\<lparr>scrollEvents := scrollEvents s + 1\<rparr>"

definition mouseout :: "bool \<Rightarrow> int \<Rightarrow> mouseTracking \<Rightarrow> mouseTracking" where
  "mouseout leftViewport now s =
     (if leftViewport \<and> isMouseInViewport s
      then (let s1 = s\<lparr>isMouseInViewport := False, mouseExitCount := mouseExitCount s + 1\<rparr>
            in if 0 < viewportEntryTime s1
               then s1\<lparr>timeInViewport := timeInViewport s1 + (now - viewportEntryTime s1)\<rparr>
               else s1)
      else s)"

text \<open>A run of the detector: the handler applied to a sequence of mousemove events,
  from the state the constructor builds.\<close>

definition ingestAll :: "mouseEvent list \<Rightarrow> mouseTracking" where
  "ingestAll es = foldl mousemove initialTracking es"


text \<open>What holds of the tracking data after any run of the listener: the window is
  within its capacity, the timestamps run parallel to the positions, no derived list is
  longer than the window, and the time of the last movement is the last stored timestamp
  (zero before the first sample).\<close>

definition within_capacity :: "mouseTracking \<Rightarrow> bool" where
  "within_capacity s =
     (length (positions s) \<le> maxSamples \<and>
      length (timestamps s) = length (positions s) \<and>
      length (velocities s) \<le> length (positions s) \<and>
      length (timeBetweenMovements s) \<le> length (positions s) \<and>
      length (velocityConsistencyScores s) \<le> length (positions s) \<and>
      length (accelerationPatterns s) \<le> length (positions s) \<and>
      length (movementAngles s) \<le> length (positions s) \<and>
      lastMovementTime s = (if positions s = [] then 0 else last (timestamps s)))"

text \<open>A pointer that moves one pixel to the right every ten milliseconds.\<close>

definition sweep :: "nat \<Rightarrow> mouseEvent" where
  "sweep i =
     \<lparr>clientX = int i, clientY = 0, dateNow = 1000 + 10 * int i, dateNowEntry = 1000 + 10 * int i\<rparr>"

section \<open>Example states\<close>


text \<open>A BotDetector after twenty events, of which the window holds three positions on
  a horizontal line, thirty pixels and ten milliseconds apart.\<close>

definition steadyPointer :: botDetector where
  "steadyPointer =
     initialBotDetector\<lparr>mouseData := initialBotMouseData
       \<lparr>bd_movements := 20,
        bd_positions := [(0, 0), (30, 0), (60, 0)],
        bd_timestamps := [1000, 1010, 1020],
        bd_velocities := [3, 3],
        bd_angles := [0, 0],
        bd_sumX := 90,
        bd_minVelocity := Num 3, bd_maxVelocity := Num 3, bd_sumVelocity := 6,
        bd_minAngle := Num 0, bd_maxAngle := Num 0,
        bd_timeBetweenMovements := [10, 10],
        bd_minTimeBetween := Num 10, bd_maxTimeBetween := Num 10, bd_sumTimeBetween := 20\<rparr>\<rparr>"

text \<open>A RemoteDesktopDetector that has tracked seventeen points on a horizontal line,
  one pixel and ten milliseconds apart, and has not analysed yet.\<close>

definition collinearWindow :: remoteDesktop where
  "collinearWindow =
     initialRemoteDesktop\<lparr>mousePoints :=
       [
        \<lparr>pt_x = 0, pt_y = 0, pt_time = 0\<rparr>, \<lparr>pt_x = 1, pt_y = 0, pt_time = 10\<rparr>,
        \<lparr>pt_x = 2, pt_y = 0, pt_time = 20\<rparr>, \<lparr>pt_x = 3, pt_y = 0, pt_time = 30\<rparr>,
        \<lparr>pt_x = 4, pt_y = 0, pt_time = 40\<rparr>, \<lparr>pt_x = 5, pt_y = 0, pt_time = 50\<rparr>,
        \<lparr>pt_x = 6, pt_y = 0, pt_time = 60\<rparr>, \<lparr>pt_x = 7, pt_y = 0, pt_time = 70\<rparr>,
        \<lparr>pt_x = 8, pt_y = 0, pt_time = 80\<rparr>, \<lparr>pt_x = 9, pt_y = 0, pt_time = 90\<rparr>,
        \<lparr>pt_x = 10, pt_y = 0, pt_time = 100\<rparr>, \<lparr>pt_x = 11, pt_y = 0, pt_time = 110\<rparr>,
        \<lparr>pt_x = 12, pt_y = 0, pt_time = 120\<rparr>, \<lparr>pt_x = 13, pt_y = 0, pt_time = 130\<rparr>,
        \<lparr>pt_x = 14, pt_y = 0, pt_time = 140\<rparr>, \<lparr>pt_x = 15, pt_y = 0, pt_time = 150\<rparr>,
        \<lparr>pt_x = 16, pt_y = 0, pt_time = 160\<rparr>]\<rparr>"


text \<open>The mouse data of a BotDetector after twenty mousemove events that all report the
  position (5,5), ten milliseconds apart: nineteen velocities, all zero, nineteen time
  differences of ten, and no angle, since no event moved.\<close>

definition stillPointer :: botDetector where
  "stillPointer =
     initialBotDetector\<lparr>mouseData := initialBotMouseData
       \<lparr>bd_movements := 20,
        bd_positions := replicate 20 (5, 5),
        bd_timestamps := map (\<lambda>i. 1000 + 10 * int i) [0..<20],
        bd_velocities := replicate 19 0,
        bd_sumX := 100, bd_sumY := 100,
        bd_minVelocity := Num 0, bd_maxVelocity := Num 0,
        bd_timeBetweenMovements := replicate 19 10,
        bd_minTimeBetween := Num 10, bd_maxTimeBetween := Num 10, bd_sumTimeBetween := 190\<rparr>\<rparr>"

section \<open>The weighted score aggregator\<close>

lemma present_pairs_Nil: "present_pairs [] fs = []"
  by (simp add: present_pairs_def)

lemma present_pairs_Cons:
  "present_pairs ((k, w) # W) fs =
     (case fs k of None \<Rightarrow> [] | Some s \<Rightarrow> [(s, w)]) @ present_pairs W fs"
  by (simp add: present_pairs_def)

lemma present_pairs_append:
  "present_pairs (W @ W') fs = present_pairs W fs @ present_pairs W' fs"
  by (simp add: present_pairs_def)

lemma numer_Nil: "numer [] fs = 0"
  by (simp add: numer_def present_pairs_Nil)

lemma denom_Nil: "denom [] fs = 0"
  by (simp add: denom_def present_pairs_Nil)

lemma numer_Cons:
  "numer ((k, w) # W) fs = (case fs k of None \<Rightarrow> 0 | Some s \<Rightarrow> s * w) + numer W fs"
  by (simp add: numer_def present_pairs_Cons split: option.split)

lemma denom_Cons:
  "denom ((k, w) # W) fs = (case fs k of None \<Rightarrow> 0 | Some s \<Rightarrow> w) + denom W fs"
  by (simp add: denom_def present_pairs_Cons split: option.split)

text \<open>The loop over the weight table adds up the numerator and the denominator of the
  weighted mean of the factors that are present.\<close>

lemma fold_weight_step:
  "fold (weight_step (num_scores fs)) W (Num a, Num b) =
     (Num (a + numer W fs), Num (b + denom W fs))"
proof (induction W arbitrary: a b)
  case Nil
  show ?case by (simp add: numer_Nil denom_Nil)
next
  case (Cons kw W)
  obtain k w where kw: "kw = (k, w)" by (cases kw)
  show ?case
  proof (cases "fs k")
    case None
    then show ?thesis
      using Cons.IH [of a b]
      by (simp add: kw weight_step_def num_scores_def numer_Cons denom_Cons)
  next
    case (Some s)
    then show ?thesis
      using Cons.IH [of "a + s * w" "b + w"]
      by (simp add: kw weight_step_def num_scores_def numer_Cons denom_Cons add.assoc)
  qed
qed

lemma weight_prop_eventTiming: "weight_prop scoreWeights ''eventTimingPatterns'' = Num 0.15"
  by (simp add: weight_prop_def scoreWeights_def)

text \<open>After its loop the function adds the event timing factor once more, so what it
  computes is the weighted mean over \<open>effectiveWeights\<close>, where that factor appears
  twice.\<close>

lemma weighted_sums_effective:
  "weighted_sums scoreWeights (num_scores fs) =
     (Num (numer effectiveWeights fs), Num (denom effectiveWeights fs))"
proof -
  have ap: "num_scores fs ''eventTimingPatterns'' = map_option Num (fs ''eventTimingPatterns'')"
    by (simp add: num_scores_def)
  have n: "numer effectiveWeights fs = numer scoreWeights fs +
      (case fs ''eventTimingPatterns'' of None \<Rightarrow> 0 | Some e \<Rightarrow> e * 0.15)"
    by (simp add: effectiveWeights_def numer_def present_pairs_append present_pairs_Cons
        present_pairs_Nil split: option.split)
  have d: "denom effectiveWeights fs = denom scoreWeights fs +
      (case fs ''eventTimingPatterns'' of None \<Rightarrow> 0 | Some e \<Rightarrow> 0.15)"
    by (simp add: effectiveWeights_def denom_def present_pairs_append present_pairs_Cons
        present_pairs_Nil split: option.split)
  show ?thesis
    using fold_weight_step [of fs scoreWeights 0 0]
    by (cases "fs ''eventTimingPatterns''") (simp_all add: weighted_sums_def ap weight_prop_eventTiming n d)
qed

lemma normalizedScore_effective:
  "normalizedScore scoreWeights (num_scores fs) =
     Num (if 0 < denom effectiveWeights fs
          then numer effectiveWeights fs / denom effectiveWeights fs else 0)"
  by (simp add: normalizedScore_def weighted_sums_effective jgt_def)

lemma snd_calculateOverallScore:
  "snd (calculateOverallScore ds) = normalizedScore scoreWeights ds"
  by (simp add: calculateOverallScore_def Let_def)

lemma fst_calculateOverallScore:
  "fst (calculateOverallScore ds) = ds(''overallScore'' \<mapsto> normalizedScore scoreWeights ds)"
  by (simp add: calculateOverallScore_def Let_def)


lemma numer_mono:
  assumes "\<forall>(k, w)\<in>set W. 0 \<le> w" and "fs k = Some v" and "v \<le> v'"
  shows "numer W fs \<le> numer W (fs(k \<mapsto> v')) \<and> denom W (fs(k \<mapsto> v')) = denom W fs"
  using assms(1)
proof (induction W)
  case Nil
  show ?case by (simp add: numer_Nil denom_Nil)
next
  case (Cons jw W)
  obtain j w where jw: "jw = (j, w)" by (cases jw)
  from Cons.prems have w: "0 \<le> w" and rest: "\<forall>(k, w)\<in>set W. 0 \<le> w"
    by (auto simp: jw)
  from Cons.IH [OF rest]
  have ih: "numer W fs \<le> numer W (fs(k \<mapsto> v'))" "denom W (fs(k \<mapsto> v')) = denom W fs"
    by blast+
  show ?case
  proof (cases "j = k")
    case True
    have "v * w \<le> v' * w" using assms(3) w by (simp add: mult_right_mono)
    with ih True assms(2) show ?thesis
      unfolding jw numer_Cons denom_Cons by simp
  next
    case False
    with ih show ?thesis
      unfolding jw numer_Cons denom_Cons by (cases "fs j") simp_all
  qed
qed

lemma effectiveWeights_nonneg: "\<forall>(k, w)\<in>set effectiveWeights. 0 \<le> w"
  by (simp add: effectiveWeights_def scoreWeights_def)


lemmas aggregator_eval = calculateOverallScore_def normalizedScore_def weighted_sums_def
  scoreWeights_def weight_step_def weight_prop_def num_scores_def jgt_def spec_overallScore_def
  present_pairs_def Let_def

text \<open>Without the event timing factor in the input the function is the weighted mean
  of the specification, and zero when no factor of the table is present.\<close>

lemma overallScore_without_eventTiming:
  assumes "fs ''eventTimingPatterns'' = None"
  shows "snd (calculateOverallScore (num_scores fs)) =
     Num (if 0 < (\<Sum>(s, w)\<leftarrow>present_pairs scoreWeights fs. w)
          then spec_overallScore scoreWeights fs else 0)"
proof -
  have n: "numer effectiveWeights fs = numer scoreWeights fs"
    using assms
    by (simp add: effectiveWeights_def numer_def present_pairs_append present_pairs_Cons present_pairs_Nil)
  have d: "denom effectiveWeights fs = denom scoreWeights fs"
    using assms
    by (simp add: effectiveWeights_def denom_def present_pairs_append present_pairs_Cons present_pairs_Nil)
  show ?thesis
    by (simp add: snd_calculateOverallScore normalizedScore_effective n d)
       (simp add: numer_def denom_def spec_overallScore_def)
qed

text \<open>Scenario C of the specification, with the factor names of the code.\<close>

lemma overallScore_scenario_C:
  "snd (calculateOverallScore (num_scores [''mousePatterns'' \<mapsto> 0.9, ''headlessBrowser'' \<mapsto> 1]))
     = Num 0.9375"
  by (simp add: aggregator_eval)

text \<open>
  Claim C1. The aggregator is to return the sum of score times weight over the sum of
  the weights, both over the factors present in the input. The loop of
  \<open>_calculateOverallScore\<close> does that over the whole weight table, which holds the event
  timing factor with weight 0.15; the block after the loop then adds the same factor and
  the same weight a second time. For the input with mouse patterns 0 and event timing
  patterns 1 the weighted mean is 0.15 / 0.40 = 3/8, and the function returns
  0.30 / 0.55 = 6/11.
\<close>

theorem C1_eventTiming_counted_twice:
  "snd (calculateOverallScore (num_scores [''mousePatterns'' \<mapsto> 0, ''eventTimingPatterns'' \<mapsto> 1]))
     = Num (6 / 11)
   \<and> spec_overallScore scoreWeights [''mousePatterns'' \<mapsto> 0, ''eventTimingPatterns'' \<mapsto> 1] = 3 / 8"
  by (simp add: aggregator_eval)



text \<open>
  Claim C8. Raising the score of one factor, with every other score and the weights as
  they were, never lowers the overall score.
\<close>

theorem C8_overallScore_monotone:
  assumes "fs k = Some v" and "v \<le> v'"
  shows "jle (snd (calculateOverallScore (num_scores fs)))
             (snd (calculateOverallScore (num_scores (fs(k \<mapsto> v')))))"
proof -
  from numer_mono [of effectiveWeights fs k v v', OF effectiveWeights_nonneg assms]
  have m: "numer effectiveWeights fs \<le> numer effectiveWeights (fs(k \<mapsto> v'))"
    and d: "denom effectiveWeights (fs(k \<mapsto> v')) = denom effectiveWeights fs"
    by blast+
  show ?thesis
    using m by (simp add: snd_calculateOverallScore normalizedScore_effective d divide_right_mono)
qed

theorem C8_overallScore_monotone_witness:
  "[''mousePatterns'' \<mapsto> 0.2, ''rdpDetection'' \<mapsto> 0.9] ''mousePatterns'' = Some (0.2::real)
   \<and> (0.2::real) \<le> 0.6
   \<and> jle (snd (calculateOverallScore (num_scores [''mousePatterns'' \<mapsto> 0.2, ''rdpDetection'' \<mapsto> 0.9])))
          (snd (calculateOverallScore
                 (num_scores ([''mousePatterns'' \<mapsto> 0.2, ''rdpDetection'' \<mapsto> 0.9](''mousePatterns'' \<mapsto> 0.6)))))"
proof -
  have h1: "[''mousePatterns'' \<mapsto> 0.2, ''rdpDetection'' \<mapsto> 0.9] ''mousePatterns'' = Some (0.2::real)"
    by simp
  have h2: "(0.2::real) \<le> 0.6" by simp
  from C8_overallScore_monotone
         [of "[''mousePatterns'' \<mapsto> 0.2, ''rdpDetection'' \<mapsto> 0.9]" "''mousePatterns''" "0.2" "0.6", OF h1 h2]
       h1 h2
  show ?thesis by blast
qed

section \<open>The status label and the evaluation cycle of BotDetector\<close>

lemma getBotStatusLabel_buckets:
  "getBotStatusLabel mv (Num s) =
     (if mv < minimumSamples then ''Insufficient data''
      else if s < 0.3 then ''Likely human''
      else if s < 0.5 then ''Some unusual patterns''
      else if s < 0.7 then ''Suspicious patterns detected''
      else ''Highly likely to be a bot'')"
  by (simp add: getBotStatusLabel_def jge_def botScoreThreshold_def
      suspiciousScoreThreshold_def humanScoreThreshold_def)

lemma getBotStatusLabel_insufficient:
  "mv < minimumSamples \<Longrightarrow> getBotStatusLabel mv score = ''Insufficient data''"
  by (simp add: getBotStatusLabel_def)

lemma analyzeAndUpdateResults_collecting:
  "bd_movements (mouseData b) < minimumSamples \<Longrightarrow>
     analyzeAndUpdateResults b = Inr (b, ''Collecting data...'')"
  by (simp add: analyzeAndUpdateResults_def)

text \<open>
  Claim C7. With at least the minimum number of movements, a score in the closed
  interval from 0 to 1 gets exactly one of four labels, by the cut points 0.3, 0.5 and
  0.7: below 0.3 likely human, from 0.3 below 0.5 unusual patterns, from 0.5 below 0.7
  suspicious patterns, from 0.7 on likely a bot. With fewer movements the label is
  "Insufficient data" whatever the score, and the evaluation cycle changes no score and
  no flag and reports only that it is collecting data.
\<close>

theorem C7_classification_buckets:
  "(minimumSamples \<le> mv \<and> 0 \<le> s \<and> s \<le> 1 \<longrightarrow>
      getBotStatusLabel mv (Num s) =
        (if s < 0.3 then ''Likely human''
         else if s < 0.5 then ''Some unusual patterns''
         else if s < 0.7 then ''Suspicious patterns detected''
         else ''Highly likely to be a bot''))
   \<and> (mv' < minimumSamples \<longrightarrow> getBotStatusLabel mv' score = ''Insufficient data'')
   \<and> (bd_movements (mouseData b) < minimumSamples \<longrightarrow>
        analyzeAndUpdateResults b = Inr (b, ''Collecting data...''))"
  by (simp add: getBotStatusLabel_buckets getBotStatusLabel_insufficient
      analyzeAndUpdateResults_collecting)

theorem C7_classification_buckets_witness:
  "getBotStatusLabel 25 (Num 0.6) = ''Suspicious patterns detected''
   \<and> getBotStatusLabel 25 (Num 0.3) = ''Some unusual patterns''
   \<and> getBotStatusLabel 5 (Num 0.9) = ''Insufficient data''
   \<and> analyzeAndUpdateResults initialBotDetector = Inr (initialBotDetector, ''Collecting data...'')"
proof -
  have m: "bd_movements (mouseData initialBotDetector) < minimumSamples"
    by (simp add: initialBotDetector_def initialBotMouseData_def minimumSamples_def)
  have a: "minimumSamples \<le> 25 \<and> (0::real) \<le> 0.6 \<and> (0.6::real) \<le> 1"
    by (simp add: minimumSamples_def)
  have b: "minimumSamples \<le> 25 \<and> (0::real) \<le> 0.3 \<and> (0.3::real) \<le> 1"
    by (simp add: minimumSamples_def)
  have c: "(5::nat) < minimumSamples"
    by (simp add: minimumSamples_def)
  from C7_classification_buckets [of 25 "0.6" 5 "Num 0.9" initialBotDetector] a c m
  have "getBotStatusLabel 25 (Num 0.6) = ''Suspicious patterns detected''"
    and "getBotStatusLabel 5 (Num 0.9) = ''Insufficient data''"
    and "analyzeAndUpdateResults initialBotDetector = Inr (initialBotDetector, ''Collecting data...'')"
    by simp_all
  moreover from C7_classification_buckets [of 25 "0.3" 5 "Num 0.9" initialBotDetector] b
  have "getBotStatusLabel 25 (Num 0.3) = ''Some unusual patterns''"
    by simp
  ultimately show ?thesis by blast
qed

text \<open>Every check of \<open>_analyzeForBotPatterns\<close> writes a flag of its own from the mouse
  data alone, so running a check twice, or in another order, changes nothing.\<close>

lemma check_velocity_idem: "check_velocity m (check_velocity m sp) = check_velocity m sp"
  by (simp add: check_velocity_def)

lemma check_timing_idem: "check_timing m (check_timing m sp) = check_timing m sp"
  by (simp add: check_timing_def)

lemma check_unnatural_idem: "check_unnatural m (check_unnatural m sp) = check_unnatural m sp"
  by (simp add: check_unnatural_def)

lemma check_angles_idem:
  "check_angles m sp = Inr sp' \<Longrightarrow> check_angles m sp' = Inr sp'"
  by (auto simp: check_angles_def Let_def split: sum.splits if_splits)

lemma check_velocity_timing:
  "check_velocity m (check_timing m sp) = check_timing m (check_velocity m sp)"
  by (simp add: check_velocity_def check_timing_def)

lemma check_velocity_unnatural:
  "check_velocity m (check_unnatural m sp) = check_unnatural m (check_velocity m sp)"
  by (simp add: check_velocity_def check_unnatural_def)

lemma check_timing_unnatural:
  "check_timing m (check_unnatural m sp) = check_unnatural m (check_timing m sp)"
  by (simp add: check_timing_def check_unnatural_def)

lemma check_angles_velocity:
  "check_angles m (check_velocity m sp) = map_sum id (check_velocity m) (check_angles m sp)"
  by (cases "straightLineCount_of m") (auto simp: check_angles_def check_velocity_def Let_def)

lemma check_angles_timing:
  "check_angles m (check_timing m sp) = map_sum id (check_timing m) (check_angles m sp)"
  by (cases "straightLineCount_of m") (auto simp: check_angles_def check_timing_def Let_def)

lemma check_angles_unnatural:
  "check_angles m (check_unnatural m sp) = map_sum id (check_unnatural m) (check_angles m sp)"
  by (cases "straightLineCount_of m") (auto simp: check_angles_def check_unnatural_def Let_def)

lemma analyzeForBotPatterns_idem:
  assumes "analyzeForBotPatterns m sp = Inr sp'"
  shows "analyzeForBotPatterns m sp' = Inr sp'"
proof -
  from assms obtain sp2 where a: "check_angles m (check_velocity m sp) = Inr sp2"
    and sp': "sp' = check_unnatural m (check_timing m sp2)"
    by (auto simp: analyzeForBotPatterns_def split: sum.splits)
  from a have a2: "check_angles m sp2 = Inr sp2" by (rule check_angles_idem)
  have v: "check_velocity m sp2 = sp2"
  proof -
    from a have "map_sum id (check_velocity m) (check_angles m sp) = Inr sp2"
      by (simp add: check_angles_velocity)
    then obtain sp0 where "sp2 = check_velocity m sp0" by (cases "check_angles m sp") auto
    then show ?thesis by (simp add: check_velocity_idem)
  qed
  have "check_velocity m sp' = sp'"
    by (simp add: sp' check_velocity_unnatural check_velocity_timing v)
  moreover have "check_angles m sp' = Inr sp'"
    by (simp add: sp' check_angles_unnatural check_angles_timing a2)
  moreover have "check_unnatural m (check_timing m sp') = sp'"
    by (simp add: sp' check_timing_unnatural check_timing_idem check_unnatural_idem)
  ultimately show ?thesis by (simp add: analyzeForBotPatterns_def)
qed

text \<open>The aggregator does not read the overall score it wrote.\<close>

lemma normalizedScore_ignores_overallScore:
  "normalizedScore scoreWeights (ds(''overallScore'' \<mapsto> x)) = normalizedScore scoreWeights ds"
  by (simp add: normalizedScore_def weighted_sums_def scoreWeights_def weight_step_def)

lemma calculateOverallScore_again:
  assumes "calculateOverallScore (ds(''mousePatterns'' \<mapsto> mp)) = (ds2, overall)"
  shows "calculateOverallScore (ds2(''mousePatterns'' \<mapsto> mp)) = (ds2, overall)"
proof -
  let ?d = "ds(''mousePatterns'' \<mapsto> mp)"
  from assms have o: "overall = normalizedScore scoreWeights ?d"
    and d2: "ds2 = ?d(''overallScore'' \<mapsto> overall)"
    by (auto simp: calculateOverallScore_def Let_def)
  have e: "ds2(''mousePatterns'' \<mapsto> mp) = ds2"
    by (rule ext) (simp add: d2)
  have "normalizedScore scoreWeights ds2 = overall"
    by (simp add: d2 normalizedScore_ignores_overallScore o [symmetric])
  then show ?thesis
    by (simp add: e calculateOverallScore_def Let_def) (rule ext, simp add: d2)
qed

lemma analyzeAndUpdateResults_idem:
  assumes "analyzeAndUpdateResults b = Inr (b', st)"
  shows "analyzeAndUpdateResults b' = Inr (b', st)"
proof (cases "bd_movements (mouseData b) < minimumSamples")
  case True
  with assms have "b' = b" by (simp add: analyzeAndUpdateResults_def)
  with assms show ?thesis by simp
next
  case False
  let ?m = "mouseData b"
  from assms False obtain sp mp ds2 overall where
    sp: "analyzeForBotPatterns ?m (patterns b) = Inr sp" and
    mp: "calculateBotLikelihood ?m sp = Inr mp" and
    agg: "calculateOverallScore ((detectionScores b)(''mousePatterns'' \<mapsto> mp)) = (ds2, overall)" and
    b': "b' = b\<lparr>patterns := sp, detectionScores := ds2\<rparr>" and
    st: "st = getBotStatusLabel (bd_movements ?m) overall"
    by (auto simp: analyzeAndUpdateResults_def Let_def split: sum.splits prod.splits)
  have m': "mouseData b' = ?m" and p': "patterns b' = sp" and d': "detectionScores b' = ds2"
    by (simp_all add: b')
  have sp2: "analyzeForBotPatterns ?m sp = Inr sp"
    using sp by (rule analyzeForBotPatterns_idem)
  have agg2: "calculateOverallScore (ds2(''mousePatterns'' \<mapsto> mp)) = (ds2, overall)"
    using agg by (rule calculateOverallScore_again)
  have "b'\<lparr>patterns := sp, detectionScores := ds2\<rparr> = b'"
    by (simp add: b')
  then show ?thesis
    using False by (simp add: analyzeAndUpdateResults_def m' p' d' sp2 mp agg2 st)
qed

text \<open>The cycle throws only when it reads a position beyond the array, which it does
  not while there are no more angles than positions.\<close>

lemma countStraight_total:
  "length as \<le> length ps \<Longrightarrow> \<exists>n. countStraight pa pp as ps c = Inr n"
proof (induction as arbitrary: pa pp ps c)
  case Nil
  show ?case by simp
next
  case (Cons a as)
  then obtain p ps' where ps: "ps = p # ps'" by (cases ps) auto
  with Cons.prems have "length as \<le> length ps'" by simp
  from Cons.IH [OF this] show ?case by (simp add: ps)
qed

lemma straightLineCount_of_total:
  assumes "length (bd_angles m) \<le> length (bd_positions m)"
  shows "\<exists>n. straightLineCount_of m = Inr n"
proof (cases "bd_angles m")
  case Nil
  then show ?thesis by (simp add: straightLineCount_of_def)
next
  case (Cons a0 as)
  with assms obtain p0 ps where ps: "bd_positions m = p0 # ps" by (cases "bd_positions m") auto
  with assms Cons have "length as \<le> length ps" by simp
  from countStraight_total [OF this] show ?thesis
    by (simp add: straightLineCount_of_def Cons ps)
qed

lemma consecutiveLoop_total:
  "length as \<le> length ps \<Longrightarrow> \<exists>r. consecutiveLoop cc mx pa pp pt hs td as ps ts = Inr r"
proof (induction as arbitrary: cc mx pa pp pt hs td ps ts)
  case Nil
  show ?case by simp
next
  case (Cons a as)
  then obtain p ps' where ps: "ps = p # ps'" by (cases ps) auto
  with Cons.prems have l: "length as \<le> length ps'" by simp
  show ?case
    using Cons.IH [OF l] by (simp add: ps Let_def)
qed

lemma consecutiveScore_total:
  assumes "length (bd_angles m) \<le> length (bd_positions m)"
  shows "\<exists>c. consecutiveScore m = Inr c"
proof (cases "bd_angles m")
  case Nil
  then show ?thesis by (simp add: consecutiveScore_def)
next
  case (Cons a0 as)
  with assms obtain p0 ps where ps: "bd_positions m = p0 # ps" by (cases "bd_positions m") auto
  with assms Cons have l: "length as \<le> length ps" by simp
  from consecutiveLoop_total [OF l] obtain r where
    "consecutiveLoop 0 0 a0 p0
       (case bd_timestamps m of [] \<Rightarrow> NaN | t0 # _ \<Rightarrow> Num (real_of_int t0))
       False 0 as ps (tl (bd_timestamps m)) = Inr r"
    by blast
  then show ?thesis
    by (cases r) (simp add: consecutiveScore_def Cons ps)
qed

lemma analyzeAndUpdateResults_total:
  assumes "length (bd_angles (mouseData b)) \<le> length (bd_positions (mouseData b))"
  shows "\<exists>b' st. analyzeAndUpdateResults b = Inr (b', st)"
proof -
  from straightLineCount_of_total [OF assms] obtain n where
    n: "straightLineCount_of (mouseData b) = Inr n" by blast
  from consecutiveScore_total [OF assms] obtain c where
    c: "consecutiveScore (mouseData b) = Inr c" by blast
  have "\<exists>sp. analyzeForBotPatterns (mouseData b) (patterns b) = Inr sp"
    by (simp add: analyzeForBotPatterns_def check_angles_def n Let_def)
  then obtain sp where sp: "analyzeForBotPatterns (mouseData b) (patterns b) = Inr sp" by blast
  have "\<exists>mp. calculateBotLikelihood (mouseData b) sp = Inr mp"
    by (simp add: calculateBotLikelihood_def c Let_def split: prod.splits)
  then obtain mp where mp: "calculateBotLikelihood (mouseData b) sp = Inr mp" by blast
  show ?thesis
    by (simp add: analyzeAndUpdateResults_def sp mp Let_def split: prod.splits)
qed

lemma distance_steadyPointer: "distance (0, 0) (30, 0) = 30" "distance (30, 0) (60, 0) = 30"
  by (simp_all add: distance_def Let_def real_sqrt_unique)

lemma steadyPointer_status:
  "\<exists>b'. analyzeAndUpdateResults steadyPointer = Inr (b', ''Likely human'')"
  by (simp add: analyzeAndUpdateResults_def steadyPointer_def initialBotDetector_def
      initialBotMouseData_def initialPatterns_def initialDetectionScores_def minimumSamples_def
      analyzeForBotPatterns_def check_velocity_def check_angles_def check_timing_def
      check_unnatural_def straightLineCount_of_def straight_step_def MIN_MOVEMENT_DISTANCE_def
      angleVariance_def PERCENTAGE_THRESHOLD_def avgVelocity_of_def perfectPatternThreshold_def
      velocityVariance_def distance_steadyPointer jgt_def jsub_def
      calculateBotLikelihood_def velocityScore_def angleScore_def timingScore_def spreadScore_def
      calculateOverallScore_def normalizedScore_def weighted_sums_def scoreWeights_def
      weight_step_def weight_prop_def getBotStatusLabel_def jge_def botScoreThreshold_def
      suspiciousScoreThreshold_def humanScoreThreshold_def Let_def)

lemma analyzeMouseMovement_collinearWindow:
  "analyzeMouseMovement collinearWindow =
     collinearWindow\<lparr>straightLineCount := 15, naturalMovementCount := 0,
                     rd_straightLineRatio := 0, rd_consistentVelocity := False\<rparr>"
  by (simp add: analyzeMouseMovement_def collinearWindow_def initialRemoteDesktop_def
      triangleArea_def distance_def pt_pos_def areaTolerance_def velocityToleranceFactor_def
      jgt_def jsub_def Let_def)

lemma analyzeMouseMovement_collinearWindow_twice:
  "analyzeMouseMovement (analyzeMouseMovement collinearWindow) =
     collinearWindow\<lparr>straightLineCount := 30, naturalMovementCount := 0,
                     rd_straightLineRatio := 1, rd_consistentVelocity := True\<rparr>"
  by (simp add: analyzeMouseMovement_collinearWindow)
     (simp add: analyzeMouseMovement_def collinearWindow_def initialRemoteDesktop_def
      triangleArea_def distance_def pt_pos_def areaTolerance_def velocityToleranceFactor_def
      jgt_def jsub_def Let_def)

text \<open>
  Claim C9, as it is stated, fails on \<open>RemoteDesktopDetector._analyzeMouseMovement\<close>:
  each analysis adds the segments of the window to counters that live as long as the
  detector. On a window of seventeen collinear points the first analysis counts 15
  segments, which is below the 30 it wants, and reports the ratio 0 and no consistent
  velocity; the second analysis of the same window brings the count to 30 and reports
  the ratio 1 and a consistent velocity.
\<close>

theorem C9_remote_desktop_analysis_accumulates:
  "mousePoints (analyzeMouseMovement collinearWindow) = mousePoints collinearWindow
   \<and> rd_straightLineRatio (analyzeMouseMovement collinearWindow) = 0
   \<and> rd_straightLineRatio (analyzeMouseMovement (analyzeMouseMovement collinearWindow)) = 1
   \<and> straightLineCount (analyzeMouseMovement collinearWindow) = 15
   \<and> straightLineCount (analyzeMouseMovement (analyzeMouseMovement collinearWindow)) = 30
   \<and> analyzeMouseMovement (analyzeMouseMovement collinearWindow) \<noteq> analyzeMouseMovement collinearWindow"
proof -
  have once: "rd_straightLineRatio (analyzeMouseMovement collinearWindow) = 0"
    "straightLineCount (analyzeMouseMovement collinearWindow) = 15"
    "mousePoints (analyzeMouseMovement collinearWindow) = mousePoints collinearWindow"
    by (simp_all only: analyzeMouseMovement_collinearWindow) simp_all
  have twice: "rd_straightLineRatio (analyzeMouseMovement (analyzeMouseMovement collinearWindow)) = 1"
    "straightLineCount (analyzeMouseMovement (analyzeMouseMovement collinearWindow)) = 30"
    by (simp_all only: analyzeMouseMovement_collinearWindow_twice) simp_all
  have "analyzeMouseMovement (analyzeMouseMovement collinearWindow) \<noteq> analyzeMouseMovement collinearWindow"
  proof
    assume "analyzeMouseMovement (analyzeMouseMovement collinearWindow) = analyzeMouseMovement collinearWindow"
    then have "rd_straightLineRatio (analyzeMouseMovement (analyzeMouseMovement collinearWindow))
               = rd_straightLineRatio (analyzeMouseMovement collinearWindow)"
      by (rule arg_cong)
    then show False by (simp only: once twice)
  qed
  with once twice show ?thesis by blast
qed

text \<open>
  Claim C9, amended. The evaluation cycle of BotDetector that the timer runs
  (\<open>_analyzeAndUpdateResults\<close>: the pattern flags, the mouse pattern score, the overall
  score and the status label) is idempotent: run again on the state it produced, with the
  mouse data unchanged, it returns the same state and the same label. It completes
  whenever the mouse data holds no more angles than positions.
\<close>

theorem C9_bot_cycle_idempotent:
  "(analyzeAndUpdateResults b = Inr (b', st) \<longrightarrow> analyzeAndUpdateResults b' = Inr (b', st))
   \<and> (length (bd_angles (mouseData b)) \<le> length (bd_positions (mouseData b)) \<longrightarrow>
        (\<exists>b1 st1. analyzeAndUpdateResults b = Inr (b1, st1)))"
  using analyzeAndUpdateResults_idem analyzeAndUpdateResults_total by blast

theorem C9_bot_cycle_idempotent_witness:
  "\<exists>b'. analyzeAndUpdateResults steadyPointer = Inr (b', ''Likely human'')
        \<and> analyzeAndUpdateResults b' = Inr (b', ''Likely human'')"
proof -
  from steadyPointer_status obtain b' where
    r: "analyzeAndUpdateResults steadyPointer = Inr (b', ''Likely human'')" by blast
  from C9_bot_cycle_idempotent [of steadyPointer b' "''Likely human''"] r
  have "analyzeAndUpdateResults b' = Inr (b', ''Likely human'')" by blast
  with r show ?thesis by blast
qed

text \<open>The mouse pattern score is not always a number. After twenty events at one
  position every velocity is zero, so the smallest and the largest velocity are both zero
  and the variance quotient of \<open>_calculateBotLikelihood\<close> is \<open>0 / 0\<close>. The mouse pattern
  score and the overall score are then \<open>NaN\<close>, which fails every threshold test, and
  the label is "Likely human".\<close>

lemma stillPointer_patterns:
  "analyzeForBotPatterns (mouseData stillPointer) (patterns stillPointer) =
     Inr (initialPatterns\<lparr>consistentTimeBetween := True\<rparr>)"
  by (simp add: stillPointer_def initialBotDetector_def initialBotMouseData_def initialPatterns_def
      analyzeForBotPatterns_def check_velocity_def check_angles_def check_timing_def
      check_unnatural_def avgVelocity_of_def perfectPatternThreshold_def jgt_def)

lemma stillPointer_likelihood:
  "calculateBotLikelihood (mouseData stillPointer) (initialPatterns\<lparr>consistentTimeBetween := True\<rparr>)
     = Inr NaN"
  by (simp add: stillPointer_def initialBotDetector_def initialBotMouseData_def initialPatterns_def
      calculateBotLikelihood_def velocityScore_def angleScore_def timingScore_def spreadScore_def
      minimumSamples_def jsub_def Let_def)

lemma normalizedScore_NaN:
  "normalizedScore scoreWeights (initialDetectionScores(''mousePatterns'' \<mapsto> NaN)) = NaN"
  by (simp add: normalizedScore_def weighted_sums_def scoreWeights_def weight_step_def
      weight_prop_def initialDetectionScores_def jgt_def Let_def)

lemma stillPointer_cycle:
  "analyzeAndUpdateResults stillPointer =
     Inr (stillPointer\<lparr>patterns := initialPatterns\<lparr>consistentTimeBetween := True\<rparr>,
                       detectionScores := initialDetectionScores(''mousePatterns'' \<mapsto> NaN, ''overallScore'' \<mapsto> NaN)\<rparr>,
          ''Likely human'')"
proof -
  have m: "\<not> bd_movements (mouseData stillPointer) < minimumSamples"
    by (simp add: stillPointer_def minimumSamples_def)
  have d: "detectionScores stillPointer = initialDetectionScores"
    by (simp add: stillPointer_def initialBotDetector_def)
  have l: "getBotStatusLabel (bd_movements (mouseData stillPointer)) NaN = ''Likely human''"
    by (simp add: getBotStatusLabel_def stillPointer_def minimumSamples_def jge_def)
  show ?thesis
    by (simp add: analyzeAndUpdateResults_def m stillPointer_patterns stillPointer_likelihood d
        calculateOverallScore_def normalizedScore_NaN l Let_def)
qed

section \<open>The headless browser evaluator\<close>
















section \<open>The mousemove listener of MouseInteractionDetector\<close>

text \<open>What each part of the listener does to the lists and counters.\<close>

lemma analyze_lists:
  "positions (analyzeRemoteAccessPatterns s) = positions s"
  "timestamps (analyzeRemoteAccessPatterns s) = timestamps s"
  "velocities (analyzeRemoteAccessPatterns s) = velocities s"
  "timeBetweenMovements (analyzeRemoteAccessPatterns s) = timeBetweenMovements s"
  "velocityConsistencyScores (analyzeRemoteAccessPatterns s) = velocityConsistencyScores s"
  "accelerationPatterns (analyzeRemoteAccessPatterns s) = accelerationPatterns s"
  "movementAngles (analyzeRemoteAccessPatterns s) = movementAngles s"
  "lastMovementTime (analyzeRemoteAccessPatterns s) = lastMovementTime s"
  "straightLineSegments (analyzeRemoteAccessPatterns s) = straightLineSegments s"
  "curvedLineSegments (analyzeRemoteAccessPatterns s) = curvedLineSegments s"
  by (simp_all add: analyzeRemoteAccessPatterns_def Let_def)

lemma viewport_lists:
  "positions (mark_in_viewport t s) = positions s"
  "timestamps (mark_in_viewport t s) = timestamps s"
  "velocities (mark_in_viewport t s) = velocities s"
  "timeBetweenMovements (mark_in_viewport t s) = timeBetweenMovements s"
  "velocityConsistencyScores (mark_in_viewport t s) = velocityConsistencyScores s"
  "accelerationPatterns (mark_in_viewport t s) = accelerationPatterns s"
  "movementAngles (mark_in_viewport t s) = movementAngles s"
  "lastMovementTime (mark_in_viewport t s) = lastMovementTime s"
  "straightLineSegments (mark_in_viewport t s) = straightLineSegments s"
  "curvedLineSegments (mark_in_viewport t s) = curvedLineSegments s"
  by (simp_all add: mark_in_viewport_def)

lemma cap_lists:
  "positions (cap_arrays s) = (if maxSamples < length (positions s) then tl (positions s) else positions s)"
  "timestamps (cap_arrays s) = (if maxSamples < length (positions s) then tl (timestamps s) else timestamps s)"
  "velocities (cap_arrays s) =
     (if maxSamples < length (positions s) then shift_if_over (velocities s) else velocities s)"
  "timeBetweenMovements (cap_arrays s) =
     (if maxSamples < length (positions s) then shift_if_over (timeBetweenMovements s) else timeBetweenMovements s)"
  "velocityConsistencyScores (cap_arrays s) =
     (if maxSamples < length (positions s) then shift_if_over (velocityConsistencyScores s)
      else velocityConsistencyScores s)"
  "accelerationPatterns (cap_arrays s) =
     (if maxSamples < length (positions s) then shift_if_over (accelerationPatterns s)
      else accelerationPatterns s)"
  "movementAngles (cap_arrays s) =
     (if maxSamples < length (positions s) then shift_if_over (movementAngles s) else movementAngles s)"
  "lastMovementTime (cap_arrays s) = lastMovementTime s"
  "straightLineSegments (cap_arrays s) = straightLineSegments s"
  "curvedLineSegments (cap_arrays s) = curvedLineSegments s"
  by (simp_all add: cap_arrays_def)

lemma store_lists:
  "positions (store_sample p t s) = positions s @ [p]"
  "timestamps (store_sample p t s) = timestamps s @ [t]"
  "velocities (store_sample p t s) = velocities s"
  "timeBetweenMovements (store_sample p t s) = timeBetweenMovements s"
  "velocityConsistencyScores (store_sample p t s) = velocityConsistencyScores s"
  "accelerationPatterns (store_sample p t s) = accelerationPatterns s"
  "movementAngles (store_sample p t s) = movementAngles s"
  "lastMovementTime (store_sample p t s) = lastMovementTime s"
  "straightLineSegments (store_sample p t s) = straightLineSegments s"
  "curvedLineSegments (store_sample p t s) = curvedLineSegments s"
  by (simp_all add: store_sample_def)

lemma segments_lists:
  "positions (update_segments p s) = positions s"
  "timestamps (update_segments p s) = timestamps s"
  "velocities (update_segments p s) = velocities s"
  "timeBetweenMovements (update_segments p s) = timeBetweenMovements s"
  "velocityConsistencyScores (update_segments p s) = velocityConsistencyScores s"
  "accelerationPatterns (update_segments p s) = accelerationPatterns s"
  "movementAngles (update_segments p s) = movementAngles s"
  "lastMovementTime (update_segments p s) = lastMovementTime s"
  by (simp_all add: update_segments_def)

lemma record_velocity_lists:
  "positions (record_velocity d dt s) = positions s"
  "timestamps (record_velocity d dt s) = timestamps s"
  "velocities (record_velocity d dt s) = velocities s @ [d / real_of_int dt]"
  "timeBetweenMovements (record_velocity d dt s) = timeBetweenMovements s"
  "movementAngles (record_velocity d dt s) = movementAngles s"
  "lastMovementTime (record_velocity d dt s) = lastMovementTime s"
  "straightLineSegments (record_velocity d dt s) = straightLineSegments s"
  "curvedLineSegments (record_velocity d dt s) = curvedLineSegments s"
  "length (accelerationPatterns (record_velocity d dt s)) =
     length (accelerationPatterns s) + (if 0 < length (velocities s) then 1 else 0)"
  "length (velocityConsistencyScores (record_velocity d dt s)) =
     length (velocityConsistencyScores s) + (if 1 < length (velocities s) then 1 else 0)"
  by (simp_all add: record_velocity_def Let_def)

lemma update_velocity_lists:
  "positions (update_velocity p t s) = positions s"
  "timestamps (update_velocity p t s) = timestamps s"
  "timeBetweenMovements (update_velocity p t s) = timeBetweenMovements s"
  "lastMovementTime (update_velocity p t s) = lastMovementTime s"
  "straightLineSegments (update_velocity p t s) = straightLineSegments s"
  "curvedLineSegments (update_velocity p t s) = curvedLineSegments s"
  "movementAngles (update_velocity p t s) = movementAngles s @ [movementAngle (last (positions s)) p]"
  "length (velocities (update_velocity p t s)) = length (velocities s) +
     (if timestamps s \<noteq> [] \<and> 0 < t - last (timestamps s) then 1 else 0)"
  "length (accelerationPatterns (update_velocity p t s)) = length (accelerationPatterns s) +
     (if timestamps s \<noteq> [] \<and> 0 < t - last (timestamps s) \<and> 0 < length (velocities s) then 1 else 0)"
  "length (velocityConsistencyScores (update_velocity p t s)) = length (velocityConsistencyScores s) +
     (if timestamps s \<noteq> [] \<and> 0 < t - last (timestamps s) \<and> 1 < length (velocities s) then 1 else 0)"
  by (simp_all add: update_velocity_def Let_def record_velocity_lists)

lemma time_between_lists:
  "positions (update_time_between t s) = positions s"
  "timestamps (update_time_between t s) = timestamps s"
  "velocities (update_time_between t s) = velocities s"
  "velocityConsistencyScores (update_time_between t s) = velocityConsistencyScores s"
  "accelerationPatterns (update_time_between t s) = accelerationPatterns s"
  "movementAngles (update_time_between t s) = movementAngles s"
  "straightLineSegments (update_time_between t s) = straightLineSegments s"
  "curvedLineSegments (update_time_between t s) = curvedLineSegments s"
  "lastMovementTime (update_time_between t s) = t"
  "timeBetweenMovements (update_time_between t s) =
     (if 0 < lastMovementTime s \<and> 0 < t - lastMovementTime s
      then timeBetweenMovements s @ [t - lastMovementTime s] else timeBetweenMovements s)"
  by (simp_all add: update_time_between_def Let_def)

lemma position_stats_lists:
  "positions (update_position_stats p s) = positions s"
  "timestamps (update_position_stats p s) = timestamps s"
  "velocities (update_position_stats p s) = velocities s"
  "timeBetweenMovements (update_position_stats p s) = timeBetweenMovements s"
  "velocityConsistencyScores (update_position_stats p s) = velocityConsistencyScores s"
  "accelerationPatterns (update_position_stats p s) = accelerationPatterns s"
  "movementAngles (update_position_stats p s) = movementAngles s"
  "lastMovementTime (update_position_stats p s) = lastMovementTime s"
  "straightLineSegments (update_position_stats p s) = straightLineSegments s"
  "curvedLineSegments (update_position_stats p s) = curvedLineSegments s"
  by (simp_all add: update_position_stats_def)

lemmas sub_lists = segments_lists update_velocity_lists time_between_lists position_stats_lists

lemma track_lists:
  "positions (track_movement p t s) = positions s"
  "timestamps (track_movement p t s) = timestamps s"
  "lastMovementTime (track_movement p t s) = t"
  "timeBetweenMovements (track_movement p t s) =
     (if 0 < lastMovementTime s \<and> 0 < t - lastMovementTime s
      then timeBetweenMovements s @ [t - lastMovementTime s] else timeBetweenMovements s)"
  "movementAngles (track_movement p t s) =
     (if positions s \<noteq> [] then movementAngles s @ [movementAngle (last (positions s)) p]
      else movementAngles s)"
  "length (velocities (track_movement p t s)) = length (velocities s) +
     (if positions s \<noteq> [] \<and> timestamps s \<noteq> [] \<and> 0 < t - last (timestamps s) then 1 else 0)"
  "length (accelerationPatterns (track_movement p t s)) = length (accelerationPatterns s) +
     (if positions s \<noteq> [] \<and> timestamps s \<noteq> [] \<and> 0 < t - last (timestamps s) \<and> 0 < length (velocities s)
      then 1 else 0)"
  "length (velocityConsistencyScores (track_movement p t s)) = length (velocityConsistencyScores s) +
     (if positions s \<noteq> [] \<and> timestamps s \<noteq> [] \<and> 0 < t - last (timestamps s) \<and> 1 < length (velocities s)
      then 1 else 0)"
  by (simp_all add: track_movement_def Let_def sub_lists)


lemma mousemove_dropped:
  "position_unchanged s (clientX e, clientY e) \<Longrightarrow> mousemove s e = s"
  by (simp add: mousemove_def)

lemma mousemove_kept:
  assumes "\<not> position_unchanged s (clientX e, clientY e)"
  shows
  "positions (mousemove s e) = positions (cap_arrays (store_sample (clientX e, clientY e) (dateNow e)
      (track_movement (clientX e, clientY e) (dateNow e) s)))"
  "timestamps (mousemove s e) = timestamps (cap_arrays (store_sample (clientX e, clientY e) (dateNow e)
      (track_movement (clientX e, clientY e) (dateNow e) s)))"
  "velocities (mousemove s e) = velocities (cap_arrays (store_sample (clientX e, clientY e) (dateNow e)
      (track_movement (clientX e, clientY e) (dateNow e) s)))"
  "timeBetweenMovements (mousemove s e) = timeBetweenMovements (cap_arrays (store_sample (clientX e, clientY e) (dateNow e)
      (track_movement (clientX e, clientY e) (dateNow e) s)))"
  "velocityConsistencyScores (mousemove s e) = velocityConsistencyScores (cap_arrays (store_sample (clientX e, clientY e) (dateNow e)
      (track_movement (clientX e, clientY e) (dateNow e) s)))"
  "accelerationPatterns (mousemove s e) = accelerationPatterns (cap_arrays (store_sample (clientX e, clientY e) (dateNow e)
      (track_movement (clientX e, clientY e) (dateNow e) s)))"
  "movementAngles (mousemove s e) = movementAngles (cap_arrays (store_sample (clientX e, clientY e) (dateNow e)
      (track_movement (clientX e, clientY e) (dateNow e) s)))"
  "lastMovementTime (mousemove s e) = dateNow e"
  "straightLineSegments (mousemove s e) = straightLineSegments (track_movement (clientX e, clientY e) (dateNow e) s)"
  "curvedLineSegments (mousemove s e) = curvedLineSegments (track_movement (clientX e, clientY e) (dateNow e) s)"
  using assms
  by (simp_all add: mousemove_def Let_def analyze_lists viewport_lists cap_lists store_lists track_lists)

lemma length_shift_if_over:
  "length (shift_if_over xs) = (if maxSamples < length xs then length xs - 1 else length xs)"
  by (simp add: shift_if_over_def)

lemma within_capacity_mousemove:
  assumes "within_capacity s"
  shows "within_capacity (mousemove s e)"
proof (cases "position_unchanged s (clientX e, clientY e)")
  case True
  with assms show ?thesis by (simp add: mousemove_dropped)
next
  case False
  let ?p = "(clientX e, clientY e)" and ?t = "dateNow e"
  from assms have n: "length (positions s) \<le> maxSamples"
    and ts: "length (timestamps s) = length (positions s)"
    and v: "length (velocities s) \<le> length (positions s)"
    and tb: "length (timeBetweenMovements s) \<le> length (positions s)"
    and vc: "length (velocityConsistencyScores s) \<le> length (positions s)"
    and ac: "length (accelerationPatterns s) \<le> length (positions s)"
    and an: "length (movementAngles s) \<le> length (positions s)"
    and lm: "lastMovementTime s = (if positions s = [] then 0 else last (timestamps s))"
    by (simp_all add: within_capacity_def)
  have ms: "0 < maxSamples" by (simp add: maxSamples_def)
  have 1: "length (positions (mousemove s e)) \<le> maxSamples"
    using n by (simp add: mousemove_kept [OF False] cap_lists store_lists track_lists)
  have 2: "length (timestamps (mousemove s e)) = length (positions (mousemove s e))"
    using ts by (simp add: mousemove_kept [OF False] cap_lists store_lists track_lists)
  have 3: "length (velocities (mousemove s e)) \<le> length (positions (mousemove s e))"
    using v n by (simp add: mousemove_kept [OF False] cap_lists store_lists track_lists length_shift_if_over)
  have 4: "length (timeBetweenMovements (mousemove s e)) \<le> length (positions (mousemove s e))"
    using tb n lm by (auto simp: mousemove_kept [OF False] cap_lists store_lists track_lists length_shift_if_over)
  have 5: "length (velocityConsistencyScores (mousemove s e)) \<le> length (positions (mousemove s e))"
    using vc n by (simp add: mousemove_kept [OF False] cap_lists store_lists track_lists length_shift_if_over)
  have 6: "length (accelerationPatterns (mousemove s e)) \<le> length (positions (mousemove s e))"
    using ac n by (simp add: mousemove_kept [OF False] cap_lists store_lists track_lists length_shift_if_over)
  have 7: "length (movementAngles (mousemove s e)) \<le> length (positions (mousemove s e))"
    using an n by (auto simp: mousemove_kept [OF False] cap_lists store_lists track_lists length_shift_if_over)
  have 8: "lastMovementTime (mousemove s e) =
      (if positions (mousemove s e) = [] then 0 else last (timestamps (mousemove s e)))"
  proof -
    have a: "positions (mousemove s e) \<noteq> []"
      using ms by (auto simp: mousemove_kept [OF False] cap_lists store_lists track_lists
          dest: arg_cong [where f = length])
    have b: "last (timestamps (mousemove s e)) = ?t"
    proof (cases "maxSamples < length (positions s @ [?p])")
      case True
      with ts ms have "timestamps s \<noteq> []" by auto
      then have "tl (timestamps s @ [?t]) = tl (timestamps s) @ [?t]" by simp
      with True show ?thesis
        by (simp add: mousemove_kept [OF False] cap_lists store_lists track_lists)
    next
      case no: False
      then show ?thesis
        by (simp add: mousemove_kept [OF False] cap_lists store_lists track_lists)
    qed
    have c: "lastMovementTime (mousemove s e) = ?t" by (rule mousemove_kept(8) [OF False])
    show ?thesis by (simp only: a b c if_False)
  qed
  from 1 2 3 4 5 6 7 8 show ?thesis by (simp add: within_capacity_def)
qed

lemma within_capacity_initial: "within_capacity initialTracking"
  by (simp add: within_capacity_def initialTracking_def)

lemma ingestAll_snoc: "ingestAll (es @ [e]) = mousemove (ingestAll es) e"
  by (simp add: ingestAll_def)

lemma within_capacity_ingestAll: "within_capacity (ingestAll es)"
proof (induction es rule: rev_induct)
  case Nil
  show ?case by (simp add: ingestAll_def within_capacity_initial)
next
  case (snoc e es)
  then show ?case by (simp add: ingestAll_snoc within_capacity_mousemove)
qed

lemma initial_fields:
  "positions initialTracking = []"
  "timestamps initialTracking = []"
  "velocities initialTracking = []"
  "timeBetweenMovements initialTracking = []"
  "velocityConsistencyScores initialTracking = []"
  "accelerationPatterns initialTracking = []"
  "movementAngles initialTracking = []"
  "lastMovementTime initialTracking = 0"
  "straightLineSegments initialTracking = 0"
  "curvedLineSegments initialTracking = 0"
  by (simp_all add: initialTracking_def)

lemma ingestAll_Nil: "ingestAll [] = initialTracking"
  by (simp add: ingestAll_def)

lemma positions_mousemove:
  "positions (mousemove s e) =
     (if position_unchanged s (clientX e, clientY e) then positions s
      else if maxSamples < length (positions s) + 1 then tl (positions s @ [(clientX e, clientY e)])
      else positions s @ [(clientX e, clientY e)])"
  by (simp add: mousemove_dropped mousemove_kept cap_lists store_lists track_lists)

lemma positions_ingestAll_snoc:
  "positions (ingestAll (es @ [e])) =
     (if position_unchanged (ingestAll es) (clientX e, clientY e) then positions (ingestAll es)
      else if length (positions (ingestAll es)) = maxSamples
      then tl (positions (ingestAll es)) @ [(clientX e, clientY e)]
      else positions (ingestAll es) @ [(clientX e, clientY e)])"
proof -
  have n: "length (positions (ingestAll es)) \<le> maxSamples"
    using within_capacity_ingestAll [of es] by (simp add: within_capacity_def)
  have ms: "0 < maxSamples" by (simp add: maxSamples_def)
  show ?thesis
  proof (cases "length (positions (ingestAll es)) = maxSamples")
    case True
    with ms have "positions (ingestAll es) \<noteq> []" by auto
    then have "tl (positions (ingestAll es) @ [(clientX e, clientY e)]) =
               tl (positions (ingestAll es)) @ [(clientX e, clientY e)]" by simp
    with True show ?thesis by (simp add: ingestAll_snoc positions_mousemove)
  next
    case False
    with n have "\<not> maxSamples < length (positions (ingestAll es)) + 1" by simp
    with False show ?thesis by (simp add: ingestAll_snoc positions_mousemove)
  qed
qed

lemma ingestAll_single:
  "positions (ingestAll [e]) = [(clientX e, clientY e)]"
  "timestamps (ingestAll [e]) = [dateNow e]"
  "velocities (ingestAll [e]) = []"
  "timeBetweenMovements (ingestAll [e]) = []"
  "velocityConsistencyScores (ingestAll [e]) = []"
  "accelerationPatterns (ingestAll [e]) = []"
  "movementAngles (ingestAll [e]) = []"
  "lastMovementTime (ingestAll [e]) = dateNow e"
proof -
  have e: "ingestAll [e] = mousemove initialTracking e"
    by (simp add: ingestAll_def)
  have k: "\<not> position_unchanged initialTracking (clientX e, clientY e)"
    by (simp add: position_unchanged_def initial_fields)
  note eval = e mousemove_kept [OF k] cap_lists store_lists track_lists initial_fields
    maxSamples_def shift_if_over_def
  show "positions (ingestAll [e]) = [(clientX e, clientY e)]"
    and "timestamps (ingestAll [e]) = [dateNow e]"
    and "timeBetweenMovements (ingestAll [e]) = []"
    and "movementAngles (ingestAll [e]) = []"
    and "lastMovementTime (ingestAll [e]) = dateNow e"
    by (simp_all add: eval)
  have "length (velocities (ingestAll [e])) = 0"
    and "length (velocityConsistencyScores (ingestAll [e])) = 0"
    and "length (accelerationPatterns (ingestAll [e])) = 0"
    by (simp_all add: eval)
  then show "velocities (ingestAll [e]) = []"
    and "velocityConsistencyScores (ingestAll [e]) = []"
    and "accelerationPatterns (ingestAll [e]) = []"
    by simp_all
qed

text \<open>
  Claim C5. After any sequence of mousemove events the stored positions, the timestamps
  and every derived list (velocities, times between movements, consistency scores,
  accelerations, angles) hold at most \<open>maxSamples\<close> = 200 entries. Eviction is first
  in, first out: an event that is not dropped is appended, and when the window already
  holds 200 positions the oldest one is removed.
\<close>

theorem C5_window_capacity:
  "length (positions (ingestAll es)) \<le> maxSamples
   \<and> length (timestamps (ingestAll es)) \<le> maxSamples
   \<and> length (velocities (ingestAll es)) \<le> maxSamples
   \<and> length (timeBetweenMovements (ingestAll es)) \<le> maxSamples
   \<and> length (velocityConsistencyScores (ingestAll es)) \<le> maxSamples
   \<and> length (accelerationPatterns (ingestAll es)) \<le> maxSamples
   \<and> length (movementAngles (ingestAll es)) \<le> maxSamples
   \<and> maxSamples = 200
   \<and> positions (ingestAll (es @ [e])) =
       (if position_unchanged (ingestAll es) (clientX e, clientY e) then positions (ingestAll es)
        else if length (positions (ingestAll es)) = maxSamples
        then tl (positions (ingestAll es)) @ [(clientX e, clientY e)]
        else positions (ingestAll es) @ [(clientX e, clientY e)])"
  using within_capacity_ingestAll [of es] positions_ingestAll_snoc [of es e]
  by (simp add: within_capacity_def maxSamples_def)

theorem C5_window_capacity_witness:
  "positions (ingestAll (map sweep [0..<250])) = map (\<lambda>i. (int i, 0)) [50..<250]"
proof -
  have step: "positions (ingestAll (map sweep [0..<n])) =
                drop (n - maxSamples) (map (\<lambda>i. (int i, 0)) [0..<n])" for n
  proof (induction n)
    case 0
    show ?case by (simp add: ingestAll_Nil initial_fields)
  next
    case (Suc n)
    let ?s = "ingestAll (map sweep [0..<n])"
    let ?g = "\<lambda>i. (int i, 0::int)"
    have ev: "(clientX (sweep n), clientY (sweep n)) = ?g n" by (simp add: sweep_def)
    have len: "length (positions ?s) = min n maxSamples"
      by (simp add: Suc.IH)
    have new: "\<not> position_unchanged ?s (?g n)"
    proof (cases n)
      case 0
      then show ?thesis by (simp add: position_unchanged_def ingestAll_Nil initial_fields)
    next
      case (Suc m)
      have pos: "0 < n" using Suc by simp
      have k: "n - maxSamples < length (map ?g [0..<n])" using pos by (simp add: maxSamples_def)
      have ne: "[0..<n] \<noteq> []" using pos by simp
      have "last (positions ?s) = last (map ?g [0..<n])"
        by (simp only: Suc.IH last_drop [OF k])
      also have "\<dots> = ?g (last [0..<n])" by (rule last_map [OF ne])
      also have "last [0..<n] = m" using pos Suc by simp
      finally have "last (positions ?s) = ?g m" .
      then show ?thesis by (simp add: position_unchanged_def Suc)
    qed
    from C5_window_capacity [of "map sweep [0..<n]" "sweep n"]
    have "positions (ingestAll (map sweep [0..<n] @ [sweep n])) =
       (if position_unchanged ?s (clientX (sweep n), clientY (sweep n)) then positions ?s
        else if length (positions ?s) = maxSamples
        then tl (positions ?s) @ [(clientX (sweep n), clientY (sweep n))]
        else positions ?s @ [(clientX (sweep n), clientY (sweep n))])"
      by blast
    then have p: "positions (ingestAll (map sweep [0..<n] @ [sweep n])) =
       (if length (positions ?s) = maxSamples then tl (positions ?s) @ [?g n]
        else positions ?s @ [?g n])"
      using new by (simp only: ev if_False)
    have target: "drop (Suc n - maxSamples) (map ?g [0..<Suc n]) =
       (if length (positions ?s) = maxSamples then tl (positions ?s) @ [?g n]
        else positions ?s @ [?g n])"
    proof (cases "maxSamples \<le> n")
      case True
      then have a: "Suc n - maxSamples = Suc (n - maxSamples)" by simp
      have b: "tl (drop (n - maxSamples) (map ?g [0..<n])) = drop (Suc (n - maxSamples)) (map ?g [0..<n])"
        by (simp add: drop_Suc tl_drop)
      have c: "Suc (n - maxSamples) \<le> length (map ?g [0..<n])"
        using True by (simp add: maxSamples_def)
      have d: "length (positions ?s) = maxSamples" using True by (simp add: len)
      have "drop (Suc n - maxSamples) (map ?g [0..<Suc n]) =
            drop (Suc (n - maxSamples)) (map ?g [0..<n] @ [?g n])"
        by (simp add: a)
      also have "\<dots> = drop (Suc (n - maxSamples)) (map ?g [0..<n]) @ [?g n]"
        using c by (simp only: drop_append) simp
      also have "\<dots> = tl (positions ?s) @ [?g n]"
        by (simp only: b [symmetric] Suc.IH)
      finally show ?thesis using d by simp
    next
      case False
      then have d: "length (positions ?s) \<noteq> maxSamples" by (simp add: len)
      from False have z: "Suc n - maxSamples = 0" "n - maxSamples = 0" by simp_all
      have "drop (Suc n - maxSamples) (map ?g [0..<Suc n]) = map ?g [0..<n] @ [?g n]"
        by (simp add: z)
      also have "\<dots> = positions ?s @ [?g n]"
        by (simp add: Suc.IH z)
      finally show ?thesis using d by simp
    qed
    have "map sweep [0..<Suc n] = map sweep [0..<n] @ [sweep n]" by simp
    with p target show ?case by (simp only:)
  qed
  have "drop 50 (map (\<lambda>i. (int i, 0::int)) [0..<250]) = map (\<lambda>i. (int i, 0)) [50..<250]"
    by (simp add: drop_map drop_upt del: upt_Suc)
  with step [of 250] show ?thesis by (simp add: maxSamples_def)
qed

text \<open>
  Claim C10. A mousemove event whose position equals the last stored position leaves the
  whole tracking state as it was: the movement count, the position statistics, every
  list and every other field.
\<close>

theorem C10_unchanged_position_dropped:
  assumes "positions s \<noteq> []" and "last (positions s) = (clientX e, clientY e)"
  shows "mousemove s e = s"
  using assms by (simp add: mousemove_def position_unchanged_def)

theorem C10_unchanged_position_dropped_witness:
  "mousemove (ingestAll [sweep 0]) ((sweep 0)\<lparr>dateNow := 2000\<rparr>) = ingestAll [sweep 0]"
proof -
  have a: "positions (ingestAll [sweep 0]) \<noteq> []"
    by (simp add: ingestAll_single)
  have b: "last (positions (ingestAll [sweep 0])) =
           (clientX ((sweep 0)\<lparr>dateNow := 2000\<rparr>), clientY ((sweep 0)\<lparr>dateNow := 2000\<rparr>))"
    by (simp add: ingestAll_single)
  from C10_unchanged_position_dropped [OF a b] show ?thesis .
qed

section \<open>Derived metrics and their guards\<close>

lemma length_shift_if_over_le: "length (shift_if_over xs) \<le> length xs"
  by (simp add: shift_if_over_def)

lemma length_capped_le:
  "length (if c then shift_if_over xs else xs) \<le> length xs"
  by (simp add: length_shift_if_over_le)

lemma grows_velocities:
  assumes "length (velocities s) < length (velocities (mousemove s e))"
  shows "positions s \<noteq> [] \<and> timestamps s \<noteq> [] \<and> 0 < dateNow e - last (timestamps s)"
proof (cases "position_unchanged s (clientX e, clientY e)")
  case True
  with assms show ?thesis by (simp add: mousemove_dropped)
next
  case False
  have "length (velocities (mousemove s e)) \<le>
        length (velocities (track_movement (clientX e, clientY e) (dateNow e) s))"
    by (simp only: mousemove_kept [OF False] cap_lists store_lists length_capped_le)
  with assms show ?thesis
    by (simp add: track_lists split: if_splits)
qed

lemma grows_accelerationPatterns:
  assumes "length (accelerationPatterns s) < length (accelerationPatterns (mousemove s e))"
  shows "positions s \<noteq> [] \<and> timestamps s \<noteq> [] \<and> 0 < dateNow e - last (timestamps s)"
proof (cases "position_unchanged s (clientX e, clientY e)")
  case True
  with assms show ?thesis by (simp add: mousemove_dropped)
next
  case False
  have "length (accelerationPatterns (mousemove s e)) \<le>
        length (accelerationPatterns (track_movement (clientX e, clientY e) (dateNow e) s))"
    by (simp only: mousemove_kept [OF False] cap_lists store_lists length_capped_le)
  with assms show ?thesis
    by (simp add: track_lists split: if_splits)
qed

lemma grows_velocityConsistencyScores:
  assumes "length (velocityConsistencyScores s) < length (velocityConsistencyScores (mousemove s e))"
  shows "positions s \<noteq> [] \<and> timestamps s \<noteq> [] \<and> 0 < dateNow e - last (timestamps s)"
proof (cases "position_unchanged s (clientX e, clientY e)")
  case True
  with assms show ?thesis by (simp add: mousemove_dropped)
next
  case False
  have "length (velocityConsistencyScores (mousemove s e)) \<le>
        length (velocityConsistencyScores (track_movement (clientX e, clientY e) (dateNow e) s))"
    by (simp only: mousemove_kept [OF False] cap_lists store_lists length_capped_le)
  with assms show ?thesis
    by (simp add: track_lists split: if_splits)
qed

lemma grows_timeBetweenMovements:
  assumes "length (timeBetweenMovements s) < length (timeBetweenMovements (mousemove s e))"
  shows "0 < lastMovementTime s \<and> 0 < dateNow e - lastMovementTime s"
proof (cases "position_unchanged s (clientX e, clientY e)")
  case True
  with assms show ?thesis by (simp add: mousemove_dropped)
next
  case False
  have "length (timeBetweenMovements (mousemove s e)) \<le>
        length (timeBetweenMovements (track_movement (clientX e, clientY e) (dateNow e) s))"
    by (simp only: mousemove_kept [OF False] cap_lists store_lists length_capped_le)
  with assms show ?thesis
    by (simp add: track_lists split: if_splits)
qed

lemma grows_movementAngles:
  assumes "length (movementAngles s) < length (movementAngles (mousemove s e))"
  shows "positions s \<noteq> []"
proof (cases "position_unchanged s (clientX e, clientY e)")
  case True
  with assms show ?thesis by (simp add: mousemove_dropped)
next
  case False
  have "length (movementAngles (mousemove s e)) \<le>
        length (movementAngles (track_movement (clientX e, clientY e) (dateNow e) s))"
    by (simp only: mousemove_kept [OF False] cap_lists store_lists length_capped_le)
  with assms show ?thesis
    by (simp add: track_lists split: if_splits)
qed

lemma last_shift_if_over: "last (shift_if_over (xs @ [x])) = x"
  by (cases xs) (simp_all add: shift_if_over_def maxSamples_def)

lemma shift_if_over_snoc_nonempty: "shift_if_over (xs @ [x]) \<noteq> []"
  by (cases xs) (simp_all add: shift_if_over_def maxSamples_def)

lemma angle_recorded:
  assumes "positions s \<noteq> []" and "\<not> position_unchanged s (clientX e, clientY e)"
  shows "movementAngles (mousemove s e) \<noteq> [] \<and>
         last (movementAngles (mousemove s e)) = movementAngle (last (positions s)) (clientX e, clientY e)"
  using assms(1)
  by (simp add: mousemove_kept [OF assms(2)] cap_lists store_lists track_lists
      last_shift_if_over shift_if_over_snoc_nonempty)

lemma lastMovementTime_ingestAll:
  "lastMovementTime (ingestAll es) =
     (if positions (ingestAll es) = [] then 0 else last (timestamps (ingestAll es)))"
  using within_capacity_ingestAll [of es] by (simp add: within_capacity_def)

lemma timestamps_nonempty_ingestAll:
  "positions (ingestAll es) \<noteq> [] \<Longrightarrow> timestamps (ingestAll es) \<noteq> []"
  using within_capacity_ingestAll [of es] by (auto simp: within_capacity_def)

lemma velocities_second:
  assumes "(clientX b, clientY b) \<noteq> (clientX a, clientY a)"
  shows "length (velocities (ingestAll [a, b])) = (if 0 < dateNow b - dateNow a then 1 else 0)"
    and "length (movementAngles (ingestAll [a, b])) = 1"
proof -
  have e: "ingestAll [a, b] = mousemove (ingestAll [a]) b"
    using ingestAll_snoc [of "[a]" b] by simp
  have k: "\<not> position_unchanged (ingestAll [a]) (clientX b, clientY b)"
    using assms by (auto simp: position_unchanged_def ingestAll_single)
  show "length (velocities (ingestAll [a, b])) = (if 0 < dateNow b - dateNow a then 1 else 0)"
    by (simp add: e mousemove_kept [OF k] cap_lists store_lists track_lists ingestAll_single
        maxSamples_def)
  show "length (movementAngles (ingestAll [a, b])) = 1"
    by (simp add: e mousemove_kept [OF k] cap_lists store_lists track_lists ingestAll_single
        maxSamples_def)
qed

text \<open>
  Claim C4, as it is stated, fails for the movement angle: the listener pushes the angle
  as soon as a position is stored, before it looks at the time delta. Two events at the
  same millisecond, one pixel apart: the second one has a time delta of zero, records no
  velocity, and still adds an angle.
\<close>

theorem C4_angle_recorded_without_time_delta:
  "length (movementAngles (ingestAll [sweep 0])) = 0
   \<and> length (movementAngles (ingestAll [sweep 0, (sweep 1)\<lparr>dateNow := 1000\<rparr>])) = 1
   \<and> dateNow ((sweep 1)\<lparr>dateNow := 1000\<rparr>) - dateNow (sweep 0) = 0
   \<and> velocities (ingestAll [sweep 0, (sweep 1)\<lparr>dateNow := 1000\<rparr>]) = []"
proof -
  have d: "(clientX ((sweep 1)\<lparr>dateNow := 1000\<rparr>), clientY ((sweep 1)\<lparr>dateNow := 1000\<rparr>))
           \<noteq> (clientX (sweep 0), clientY (sweep 0))"
    by (simp add: sweep_def)
  have t: "dateNow ((sweep 1)\<lparr>dateNow := 1000\<rparr>) - dateNow (sweep 0) = 0"
    by (simp add: sweep_def)
  have "length (velocities (ingestAll [sweep 0, (sweep 1)\<lparr>dateNow := 1000\<rparr>])) = 0"
    using velocities_second(1) [OF d] by (simp only: t) simp
  then have v: "velocities (ingestAll [sweep 0, (sweep 1)\<lparr>dateNow := 1000\<rparr>]) = []" by simp
  from velocities_second(2) [OF d] t v show ?thesis
    by (simp add: ingestAll_single)
qed

text \<open>
  Claim C4, amended. Over any run of the listener, a velocity, a time between movements,
  an acceleration or a consistency score is added only when a sample is already stored
  and the time since it is strictly positive; otherwise nothing is added, no zero is
  filled in. The movement angle is added for every kept event that has a stored
  predecessor, whatever the time delta. The first sample of a run adds no derived metric
  at all.
\<close>

theorem C4_derived_metrics_guards:
  "(length (velocities (ingestAll es)) < length (velocities (ingestAll (es @ [e]))) \<longrightarrow>
      positions (ingestAll es) \<noteq> [] \<and> 0 < dateNow e - last (timestamps (ingestAll es)))
   \<and> (length (timeBetweenMovements (ingestAll es)) < length (timeBetweenMovements (ingestAll (es @ [e]))) \<longrightarrow>
      positions (ingestAll es) \<noteq> [] \<and> 0 < dateNow e - last (timestamps (ingestAll es)))
   \<and> (length (accelerationPatterns (ingestAll es)) < length (accelerationPatterns (ingestAll (es @ [e]))) \<longrightarrow>
      positions (ingestAll es) \<noteq> [] \<and> 0 < dateNow e - last (timestamps (ingestAll es)))
   \<and> (length (velocityConsistencyScores (ingestAll es))
         < length (velocityConsistencyScores (ingestAll (es @ [e]))) \<longrightarrow>
      positions (ingestAll es) \<noteq> [] \<and> 0 < dateNow e - last (timestamps (ingestAll es)))
   \<and> (length (movementAngles (ingestAll es)) < length (movementAngles (ingestAll (es @ [e]))) \<longrightarrow>
      positions (ingestAll es) \<noteq> [])
   \<and> (positions (ingestAll es) \<noteq> [] \<and> \<not> position_unchanged (ingestAll es) (clientX e, clientY e) \<longrightarrow>
      movementAngles (ingestAll (es @ [e])) \<noteq> [] \<and>
      last (movementAngles (ingestAll (es @ [e]))) =
        movementAngle (last (positions (ingestAll es))) (clientX e, clientY e))
   \<and> velocities (ingestAll [e]) = [] \<and> timeBetweenMovements (ingestAll [e]) = []
   \<and> movementAngles (ingestAll [e]) = [] \<and> accelerationPatterns (ingestAll [e]) = []
   \<and> velocityConsistencyScores (ingestAll [e]) = []"
proof -
  let ?s = "ingestAll es"
  have tb: "length (timeBetweenMovements ?s) < length (timeBetweenMovements (mousemove ?s e)) \<Longrightarrow>
      positions ?s \<noteq> [] \<and> 0 < dateNow e - last (timestamps ?s)"
  proof -
    assume "length (timeBetweenMovements ?s) < length (timeBetweenMovements (mousemove ?s e))"
    from grows_timeBetweenMovements [OF this]
    have a: "0 < lastMovementTime ?s" and b: "0 < dateNow e - lastMovementTime ?s" by simp_all
    from a have ne: "positions ?s \<noteq> []"
      by (simp add: lastMovementTime_ingestAll split: if_splits)
    with b show ?thesis by (simp add: lastMovementTime_ingestAll)
  qed
  show ?thesis
    using grows_velocities [of ?s e] grows_accelerationPatterns [of ?s e]
      grows_velocityConsistencyScores [of ?s e] grows_movementAngles [of ?s e] tb
      angle_recorded [of ?s e]
    by (simp add: ingestAll_snoc ingestAll_single)
qed

theorem C4_derived_metrics_guards_witness:
  "positions (ingestAll [sweep 0]) \<noteq> []
   \<and> 0 < dateNow (sweep 1) - last (timestamps (ingestAll [sweep 0]))
   \<and> last (movementAngles (ingestAll ([sweep 0] @ [sweep 1]))) = 0"
proof -
  have d: "(clientX (sweep 1), clientY (sweep 1)) \<noteq> (clientX (sweep 0), clientY (sweep 0))"
    by (simp add: sweep_def)
  have g: "length (velocities (ingestAll [sweep 0])) < length (velocities (ingestAll ([sweep 0] @ [sweep 1])))"
    using velocities_second(1) [OF d] by (simp add: ingestAll_single sweep_def)
  have k: "positions (ingestAll [sweep 0]) \<noteq> [] \<and>
           \<not> position_unchanged (ingestAll [sweep 0]) (clientX (sweep 1), clientY (sweep 1))"
    by (simp add: ingestAll_single position_unchanged_def sweep_def)
  have a: "movementAngle (last (positions (ingestAll [sweep 0]))) (clientX (sweep 1), clientY (sweep 1)) = 0"
    by (simp add: ingestAll_single sweep_def movementAngle_def js_atan2_def)
  from C4_derived_metrics_guards [of "[sweep 0]" "sweep 1"] g k a show ?thesis
    by simp
qed

section \<open>The straight-line counters\<close>













text \<open>The two stored points of the test are the third and the second from the end of
  the window: the new position is not yet stored when they are read, so the last stored
  position is not among the three points compared. With (0,0), (10,0), (10,10) stored and
  the pointer moving on to (10,20), the last three positions lie on a line, and the three
  points compared do not pass the test.\<close>

lemma comparedPoints_skip_last:
  "comparedPoints (s\<lparr>positions := ps @ [a, b, c]\<rparr>) = (a, b)"
  by (simp add: comparedPoints_def nth_append)

lemma skipped_point_example:
  "nearlyCollinear (10, 0) (10, 10) (10, 20) \<and> \<not> nearlyCollinear (0, 0) (10, 0) (10, 20)"
proof -
  have a: "distance (10, 0) (10, 10) = 10" "distance (10, 10) (10, 20) = 10"
    "distance (0, 0) (10, 0) = 10" "distance (10, 0) (10, 20) = 20"
    by (simp_all add: distance_def Let_def real_sqrt_unique)
  show ?thesis
    by (simp add: nearlyCollinear_def triangleArea_def a Let_def)
qed

end
